theory Spec2Isabelle
  imports Complex_Main
begin

section \<open>Errors\<close>

text \<open>
  A JavaScript exception is a value: \<open>Error msg\<close> is \<open>throw new Error(msg)\<close>, and
  \<open>TypeError msg\<close> is what the runtime raises when a property of \<open>undefined\<close> is read.
\<close>

datatype js_error = Error string | TypeError string

section \<open>Accessible view of the hover (HoverAccessibleView, HoverAccessibilityHelp)\<close>

type_synonym code_editor = nat
type_synonym hover_controller_ref = nat

text \<open>
  The services the two \<open>getProvider\<close> methods reach through the accessor:
  \<open>ICodeEditorService.getActiveCodeEditor()\<close>, \<open>getFocusedCodeEditor()\<close> (each an editor
  or \<open>null\<close>) and \<open>HoverController.get(editor)\<close> (a controller or \<open>null\<close>).
\<close>

record services_accessor =
  getActiveCodeEditor :: "code_editor option"
  getFocusedCodeEditor :: "code_editor option"
  HoverController_get :: "code_editor \<Rightarrow> hover_controller_ref option"

datatype content_provider =
    HoverAccessibleViewProvider code_editor hover_controller_ref
  | HoverAccessibilityHelpProvider hover_controller_ref

text \<open>\<open>a || b\<close> on object references: the first operand unless it is \<open>null\<close>.\<close>

definition or_else :: "'a option \<Rightarrow> 'a option \<Rightarrow> 'a option" where
  "or_else a b = (case a of Some x \<Rightarrow> Some x | None \<Rightarrow> b)"

definition no_editor_message :: string where
  "no_editor_message = ''No active or focused code editor''"

text \<open>
  \<open>HoverAccessibleView.getProvider\<close>. The second argument is the \<open>_provider\<close> field; the
  result is the thrown error, or the returned provider (\<open>None\<close> is \<open>undefined\<close>) with the
  field afterwards.
\<close>

definition HoverAccessibleView_getProvider ::
  "services_accessor \<Rightarrow> content_provider option
     \<Rightarrow> js_error + (content_provider option \<times> content_provider option)" where
  "HoverAccessibleView_getProvider accessor provider_field =
     (case or_else (getActiveCodeEditor accessor) (getFocusedCodeEditor accessor) of
        None \<Rightarrow> Inl (Error no_editor_message)
      | Some codeEditor \<Rightarrow>
          (case HoverController_get accessor codeEditor of
             None \<Rightarrow> Inr (None, provider_field)
           | Some hoverController \<Rightarrow>
               (let p = HoverAccessibleViewProvider codeEditor hoverController
                in Inr (Some p, Some p))))"

text \<open>\<open>HoverAccessibilityHelp.getProvider\<close>: the same, but the field is never assigned.\<close>

definition HoverAccessibilityHelp_getProvider ::
  "services_accessor \<Rightarrow> content_provider option
     \<Rightarrow> js_error + (content_provider option \<times> content_provider option)" where
  "HoverAccessibilityHelp_getProvider accessor provider_field =
     (case or_else (getActiveCodeEditor accessor) (getFocusedCodeEditor accessor) of
        None \<Rightarrow> Inl (Error no_editor_message)
      | Some codeEditor \<Rightarrow>
          (case HoverController_get accessor codeEditor of
             None \<Rightarrow> Inr (None, provider_field)
           | Some hoverController \<Rightarrow>
               Inr (Some (HoverAccessibilityHelpProvider hoverController), provider_field)))"

section \<open>The hover controller (ModesHoverController)\<close>

datatype MouseTargetType =
    UNKNOWN | TEXTAREA | GUTTER_GLYPH_MARGIN | GUTTER_LINE_NUMBERS | GUTTER_LINE_DECORATIONS
  | GUTTER_VIEW_ZONE | CONTENT_TEXT | CONTENT_EMPTY | CONTENT_VIEW_ZONE | CONTENT_WIDGET
  | OVERVIEW_RULER | SCROLLBAR | OVERLAY_WIDGET | OUTSIDE_EDITOR

text \<open>
  \<open>mouseEvent.target\<close>: its type and its detail. The detail is compared only with widget
  ids, so it is the id string when it is one and \<open>None\<close> otherwise.
\<close>

record mouse_target =
  target_type :: MouseTargetType
  target_detail :: "string option"

record scroll_event =
  scrollTopChanged :: bool
  scrollLeftChanged :: bool

text \<open>
  Modelled from the spec: the widget classes \<open>ModesContentHoverWidget\<close> and
  \<open>ModesGlyphHoverWidget\<close> are not part of the sources at hand. A widget is what the
  controller observes of it: whether it is shown and, for the content hover, whether a color
  picker is open inside it. \<open>hide()\<close> leaves the widget not shown; a hidden content hover
  holds no open color picker. The two \<open>ID\<close> constants are the widgets' identifiers.
\<close>

record content_hover_widget =
  content_shown :: bool
  colorPickerVisible :: bool

record glyph_hover_widget =
  glyph_shown :: bool

definition ModesContentHoverWidget_hide :: "content_hover_widget \<Rightarrow> content_hover_widget" where
  "ModesContentHoverWidget_hide w = w\<lparr>content_shown := False, colorPickerVisible := False\<rparr>"

definition ModesGlyphHoverWidget_hide :: "glyph_hover_widget \<Rightarrow> glyph_hover_widget" where
  "ModesGlyphHoverWidget_hide w = w\<lparr>glyph_shown := False\<rparr>"

definition ModesContentHoverWidget_ID :: string where
  "ModesContentHoverWidget_ID = ''editor.contrib.modesContentHoverWidget''"

definition ModesGlyphHoverWidget_ID :: string where
  "ModesGlyphHoverWidget_ID = ''editor.contrib.modesGlyphHoverWidget''"

text \<open>The controller's fields; a widget that was never created is \<open>None\<close>.\<close>

record hover_controller =
  isMouseDown :: bool
  hoverClicked :: bool
  isHoverEnabled :: bool
  isHoverSticky :: bool
  isCurrentSticky :: bool
  contentWidget :: "content_hover_widget option"
  glyphWidget :: "glyph_hover_widget option"

text \<open>\<open>this._contentWidget?.isColorPickerVisible()\<close>, \<open>undefined\<close> read as false.\<close>

definition isColorPickerVisible :: "hover_controller \<Rightarrow> bool" where
  "isColorPickerVisible c =
     (case contentWidget c of None \<Rightarrow> False | Some w \<Rightarrow> colorPickerVisible w)"

definition hideWidgets :: "hover_controller \<Rightarrow> hover_controller" where
  "hideWidgets c =
     (if isMouseDown c \<and> hoverClicked c \<and> isColorPickerVisible c then c
      else c\<lparr>hoverClicked := False,
             isCurrentSticky := False,
             glyphWidget := map_option ModesGlyphHoverWidget_hide (glyphWidget c),
             contentWidget := map_option ModesContentHoverWidget_hide (contentWidget c)\<rparr>)"

definition onEditorScrollChanged :: "scroll_event \<Rightarrow> hover_controller \<Rightarrow> hover_controller" where
  "onEditorScrollChanged e c =
     (if scrollTopChanged e \<or> scrollLeftChanged e then hideWidgets c else c)"

definition onEditorMouseDown :: "mouse_target \<Rightarrow> hover_controller \<Rightarrow> hover_controller" where
  "onEditorMouseDown target c0 =
     (let c = c0\<lparr>isMouseDown := True\<rparr>;
          targetType = target_type target
      in if targetType = CONTENT_WIDGET \<and> target_detail target = Some ModesContentHoverWidget_ID
         then c\<lparr>hoverClicked := True\<rparr>
         else if targetType = OVERLAY_WIDGET \<and> target_detail target = Some ModesGlyphHoverWidget_ID
         then c
         else hideWidgets
                (if targetType \<noteq> OVERLAY_WIDGET \<and> target_detail target \<noteq> Some ModesGlyphHoverWidget_ID
                 then c\<lparr>hoverClicked := False\<rparr> else c))"

definition onEditorMouseUp :: "hover_controller \<Rightarrow> hover_controller" where
  "onEditorMouseUp c = c\<lparr>isMouseDown := False\<rparr>"

text \<open>Both widgets are hidden: each is absent or not shown.\<close>

definition widgets_hidden :: "hover_controller \<Rightarrow> bool" where
  "widgets_hidden c \<longleftrightarrow>
     (case contentWidget c of None \<Rightarrow> True | Some w \<Rightarrow> \<not> content_shown w) \<and>
     (case glyphWidget c of None \<Rightarrow> True | Some w \<Rightarrow> \<not> glyph_shown w)"

section \<open>Numbers\<close>

text \<open>
  A JavaScript number is a real, one of the two infinities, or NaN. Rounding is not
  modelled, and neither is the negative zero: the divisors that occur are measured pixel
  sizes and the constant 360, which are never \<open>-0\<close>.
\<close>

datatype number = Num real | PosInf | NegInf | NaN

fun js_sub :: "number \<Rightarrow> number \<Rightarrow> number" where
  "js_sub NaN y = NaN"
| "js_sub x NaN = NaN"
| "js_sub (Num a) (Num b) = Num (a - b)"
| "js_sub (Num a) PosInf = NegInf"
| "js_sub (Num a) NegInf = PosInf"
| "js_sub PosInf PosInf = NaN"
| "js_sub PosInf y = PosInf"
| "js_sub NegInf NegInf = NaN"
| "js_sub NegInf y = NegInf"

text \<open>The sign of a number that is not NaN: \<open>-1\<close>, \<open>0\<close> or \<open>1\<close>.\<close>

fun js_sign :: "number \<Rightarrow> int" where
  "js_sign (Num a) = (if a < 0 then - 1 else if a = 0 then 0 else 1)"
| "js_sign PosInf = 1"
| "js_sign NegInf = - 1"
| "js_sign NaN = 0"

definition signed_infinity :: "int \<Rightarrow> number" where
  "signed_infinity k = (if k = 0 then NaN else if k < 0 then NegInf else PosInf)"

fun js_mul :: "number \<Rightarrow> number \<Rightarrow> number" where
  "js_mul NaN y = NaN"
| "js_mul x NaN = NaN"
| "js_mul (Num a) (Num b) = Num (a * b)"
| "js_mul x y = signed_infinity (js_sign x * js_sign y)"

fun js_div :: "number \<Rightarrow> number \<Rightarrow> number" where
  "js_div NaN y = NaN"
| "js_div x NaN = NaN"
| "js_div (Num a) (Num b) = (if b = 0 then signed_infinity (js_sign (Num a)) else Num (a / b))"
| "js_div (Num a) y = Num 0"
| "js_div x (Num b) = signed_infinity (js_sign x * (if b < 0 then - 1 else 1))"
| "js_div x y = NaN"

fun Math_min :: "number \<Rightarrow> number \<Rightarrow> number" where
  "Math_min NaN y = NaN"
| "Math_min x NaN = NaN"
| "Math_min NegInf y = NegInf"
| "Math_min x NegInf = NegInf"
| "Math_min PosInf y = y"
| "Math_min x PosInf = x"
| "Math_min (Num a) (Num b) = Num (min a b)"

fun Math_max :: "number \<Rightarrow> number \<Rightarrow> number" where
  "Math_max NaN y = NaN"
| "Math_max x NaN = NaN"
| "Math_max PosInf y = PosInf"
| "Math_max x PosInf = PosInf"
| "Math_max NegInf y = y"
| "Math_max x NegInf = x"
| "Math_max (Num a) (Num b) = Num (max a b)"

text \<open>The closed interval \<open>[0,1]\<close>; NaN and the infinities are outside.\<close>

fun in_unit_interval :: "number \<Rightarrow> bool" where
  "in_unit_interval (Num a) = (0 \<le> a \<and> a \<le> 1)"
| "in_unit_interval x = False"

section \<open>Colors and the color picker model\<close>

text \<open>
  Modelled from the spec: the classes \<open>Color\<close> and \<open>HSVA\<close> (\<open>vs/base/common/color\<close>) are
  not part of the sources at hand, and the spec speaks of a color only as a value. A color
  is its hue, saturation, value and alpha as \<open>color.hsva\<close> reads them. The constructor
  \<open>new HSVA(h, s, v, a)\<close> normalises what it is given: the hue is clamped into \<open>[0,360]\<close>
  and cut to a whole number by \<open>| 0\<close>, which turns NaN into \<open>0\<close>; the other three are
  clamped into \<open>[0,1]\<close> and rounded to three decimals.
\<close>

record hsva =
  hue :: number
  saturation :: number
  brightness :: number
  alpha :: number

definition HSVA_hue :: "number \<Rightarrow> number" where
  "HSVA_hue h =
     (case Math_max (Math_min (Num 360) h) (Num 0) of
        Num r \<Rightarrow> Num (of_int \<lfloor>r\<rfloor>)
      | other \<Rightarrow> Num 0)"

definition roundFloat3 :: "number \<Rightarrow> number" where
  "roundFloat3 x =
     (case x of
        Num r \<Rightarrow> Num (of_int \<lfloor>r * 1000 + 1 / 2\<rfloor> / 1000)
      | other \<Rightarrow> other)"

definition HSVA_unit :: "number \<Rightarrow> number" where
  "HSVA_unit x = roundFloat3 (Math_max (Math_min (Num 1) x) (Num 0))"

definition HSVA_new :: "number \<Rightarrow> number \<Rightarrow> number \<Rightarrow> number \<Rightarrow> hsva" where
  "HSVA_new h s v a =
     \<lparr>hue = HSVA_hue h, saturation = HSVA_unit s, brightness = HSVA_unit v,
      alpha = HSVA_unit a\<rparr>"

record text_range =
  startLineNumber :: nat
  startColumn :: nat
  endLineNumber :: nat
  endColumn :: nat

record edit_operation =
  edit_range :: text_range
  edit_text :: string
  forceMoveMarkers :: "bool option"

record color_presentation =
  label :: string
  textEdit :: "edit_operation option"
  additionalTextEdits :: "edit_operation list option"

text \<open>
  Modelled from the spec: the class \<open>ColorPickerModel\<close> is not part of the sources at hand.
  It holds the color, the ordered presentations and the index of the current one; assigning
  the presentations keeps the index a valid one (back to the first presentation when it
  would fall outside), and \<open>presentation\<close> reads the presentation at the index, which is
  \<open>undefined\<close> when there is none: the picker's header reads it under the test
  \<open>this.model.presentation ? ... : ''\<close>.
\<close>

record color_picker_model =
  color :: hsva
  colorPresentations :: "color_presentation list"
  presentationIndex :: nat

definition set_colorPresentations ::
  "color_presentation list \<Rightarrow> color_picker_model \<Rightarrow> color_picker_model" where
  "set_colorPresentations ps m =
     m\<lparr>colorPresentations := ps,
       presentationIndex := (if presentationIndex m < length ps then presentationIndex m else 0)\<rparr>"

definition presentation :: "color_picker_model \<Rightarrow> color_presentation option" where
  "presentation m =
     (if presentationIndex m < length (colorPresentations m)
      then Some (colorPresentations m ! presentationIndex m) else None)"

subsection \<open>AbstractColorPickerBody\<close>

definition onDidSaturationValueChange ::
  "number \<times> number \<Rightarrow> color_picker_model \<Rightarrow> color_picker_model" where
  "onDidSaturationValueChange sv m =
     m\<lparr>color := HSVA_new (hue (color m)) (fst sv) (snd sv) (alpha (color m))\<rparr>"

definition onDidOpacityChange :: "number \<Rightarrow> color_picker_model \<Rightarrow> color_picker_model" where
  "onDidOpacityChange a m =
     m\<lparr>color := HSVA_new (hue (color m)) (saturation (color m)) (brightness (color m)) a\<rparr>"


section \<open>Input surfaces (SaturationBox, Strip)\<close>

text \<open>
  Modelled from the spec: the class \<open>GlobalPointerMoveMonitor\<close> is not part of the sources
  at hand. Pointer-down begins a capture, every pointer-move while captured is handed to the
  callback given to \<open>startMonitoring\<close>, and a pointer-up or \<open>stopMonitoring\<close> ends the
  capture; a stopped monitor takes no further part, so a surface that stops a monitor lets
  go of it here. A monitor is its \<open>isMonitoring()\<close> flag together with what its callback closes over: the
  page position of the surface's node, read at pointer-down.
\<close>

record pointer_monitor =
  origin_left :: real
  origin_top :: real
  isMonitoring :: bool

definition startMonitoring :: "pointer_monitor \<Rightarrow> pointer_monitor" where
  "startMonitoring m = m\<lparr>isMonitoring := True\<rparr>"

text \<open>
  \<open>e.target\<close> of a pointer-down: nothing or not an \<open>Element\<close>; the surface's own handle
  (the selection circle of the box, the slider of a strip); or any other element.
\<close>

datatype event_target = NoElement | HandleElement | OtherElement

record pointer_down_event =
  target :: event_target
  offsetX :: real
  offsetY :: real

text \<open>
  The pointer events a surface reacts to. A pointer-down carries, next to the event, the
  page position \<open>dom.getDomNodePagePosition\<close> reports for the surface's node; a pointer-move
  carries \<open>pageX\<close> and \<open>pageY\<close>; a pointer-up is the one observed on the owner document.
\<close>

datatype pointer_event =
    PointerDown pointer_down_event "real \<times> real"
  | PointerMove real real
  | PointerUp

text \<open>What a surface emits: \<open>onDidChange\<close> with its payload, or \<open>onColorFlushed\<close>.\<close>

datatype 'a surface_event = DidChange 'a | ColorFlushed

subsection \<open>SaturationBox\<close>

text \<open>
  The fields of the box: the measured size, the \<open>monitor\<close> field, the monitors the field no
  longer refers to because a later pointer-down replaced them before a pointer-up stopped
  them, the number of pointer-up listeners registered on the document, the position of the
  selection circle (\<open>left\<close>, \<open>top\<close> in pixels), the hue the canvas was last painted for,
  and how many times it was painted.
\<close>

record saturation_box =
  sb_width :: real
  sb_height :: real
  sb_monitor :: "pointer_monitor option"
  sb_replaced :: "pointer_monitor list"
  sb_pointerUpListeners :: nat
  sb_selection :: "number \<times> number"
  sb_canvas :: number
  sb_paints :: nat

definition paintSelection :: "number \<Rightarrow> number \<Rightarrow> saturation_box \<Rightarrow> saturation_box" where
  "paintSelection s v b =
     b\<lparr>sb_selection :=
         (js_mul s (Num (sb_width b)),
          js_sub (Num (sb_height b)) (js_mul v (Num (sb_height b))))\<rparr>"

definition paint :: "hsva \<Rightarrow> saturation_box \<Rightarrow> saturation_box" where
  "paint model_color b = b\<lparr>sb_canvas := hue model_color, sb_paints := Suc (sb_paints b)\<rparr>"

definition SaturationBox_layout ::
  "real \<Rightarrow> real \<Rightarrow> hsva \<Rightarrow> saturation_box \<Rightarrow> saturation_box" where
  "SaturationBox_layout offsetWidth offsetHeight model_color b =
     paintSelection (saturation model_color) (brightness model_color)
       (paint model_color (b\<lparr>sb_width := offsetWidth, sb_height := offsetHeight\<rparr>))"

text \<open>The constructor: lay out on the node's size at that moment, no monitor yet.\<close>

definition SaturationBox_new :: "real \<Rightarrow> real \<Rightarrow> hsva \<Rightarrow> saturation_box" where
  "SaturationBox_new offsetWidth offsetHeight model_color =
     SaturationBox_layout offsetWidth offsetHeight model_color
       \<lparr>sb_width = 0, sb_height = 0, sb_monitor = None, sb_replaced = [],
        sb_pointerUpListeners = 0, sb_selection = (Num 0, Num 0), sb_canvas = Num 0,
        sb_paints = 0\<rparr>"

definition SaturationBox_onDidChangePosition ::
  "real \<Rightarrow> real \<Rightarrow> saturation_box \<Rightarrow> saturation_box \<times> (number \<times> number) surface_event list" where
  "SaturationBox_onDidChangePosition pos_left pos_top b =
     (let s = Math_max (Num 0) (Math_min (Num 1) (js_div (Num pos_left) (Num (sb_width b))));
          v = Math_max (Num 0)
                (Math_min (Num 1) (js_sub (Num 1) (js_div (Num pos_top) (Num (sb_height b)))))
      in (paintSelection s v b, [DidChange (s, v)]))"

definition SaturationBox_onPointerDown ::
  "pointer_down_event \<Rightarrow> real \<times> real \<Rightarrow> saturation_box
     \<Rightarrow> saturation_box \<times> (number \<times> number) surface_event list" where
  "SaturationBox_onPointerDown e origin b =
     (if target e = NoElement then (b, [])
      else
        let m = \<lparr>origin_left = fst origin, origin_top = snd origin, isMonitoring = False\<rparr>;
            b1 = b\<lparr>sb_monitor := Some m,
                   sb_replaced := sb_replaced b @
                     (case sb_monitor b of None \<Rightarrow> [] | Some old \<Rightarrow> [old])\<rparr>;
            (b2, out) = (if target e \<noteq> HandleElement
                         then SaturationBox_onDidChangePosition (offsetX e) (offsetY e) b1
                         else (b1, []));
            b3 = b2\<lparr>sb_monitor := map_option startMonitoring (sb_monitor b2)\<rparr>
        in (b3\<lparr>sb_pointerUpListeners := Suc (sb_pointerUpListeners b3)\<rparr>, out))"

text \<open>One pointer-up listener: flush, dispose itself, stop and drop the field's monitor.\<close>

definition SaturationBox_pointerUpListener ::
  "saturation_box \<Rightarrow> saturation_box \<times> (number \<times> number) surface_event list" where
  "SaturationBox_pointerUpListener b =
     (b\<lparr>sb_pointerUpListeners := sb_pointerUpListeners b - 1, sb_monitor := None\<rparr>,
      [ColorFlushed])"

text \<open>
  A pointer-up on the document runs the listeners registered at that moment, in order; it
  also ends the capture of every monitor still monitoring.
\<close>

fun SaturationBox_firePointerUp ::
  "nat \<Rightarrow> saturation_box \<Rightarrow> saturation_box \<times> (number \<times> number) surface_event list" where
  "SaturationBox_firePointerUp 0 b = (b, [])"
| "SaturationBox_firePointerUp (Suc n) b =
     (let (b1, out1) = SaturationBox_pointerUpListener b;
          (b2, out2) = SaturationBox_firePointerUp n b1
      in (b2, out1 @ out2))"

text \<open>A pointer-move reaches the callback of every monitor that is monitoring.\<close>

fun SaturationBox_deliverMove ::
  "real \<Rightarrow> real \<Rightarrow> pointer_monitor list \<Rightarrow> saturation_box
     \<Rightarrow> saturation_box \<times> (number \<times> number) surface_event list" where
  "SaturationBox_deliverMove pageX pageY [] b = (b, [])"
| "SaturationBox_deliverMove pageX pageY (m # ms) b =
     (if isMonitoring m
      then let (b1, out1) = SaturationBox_onDidChangePosition
                              (pageX - origin_left m) (pageY - origin_top m) b;
               (b2, out2) = SaturationBox_deliverMove pageX pageY ms b1
           in (b2, out1 @ out2)
      else SaturationBox_deliverMove pageX pageY ms b)"

fun SaturationBox_dispatch ::
  "pointer_event \<Rightarrow> saturation_box \<Rightarrow> saturation_box \<times> (number \<times> number) surface_event list" where
  "SaturationBox_dispatch (PointerDown e origin) b = SaturationBox_onPointerDown e origin b"
| "SaturationBox_dispatch (PointerMove pageX pageY) b =
     SaturationBox_deliverMove pageX pageY
       (sb_replaced b @ (case sb_monitor b of None \<Rightarrow> [] | Some m \<Rightarrow> [m])) b"
| "SaturationBox_dispatch PointerUp b =
     (let (b1, out) = SaturationBox_firePointerUp (sb_pointerUpListeners b) b
      in (b1\<lparr>sb_monitor := map_option (\<lambda>m. m\<lparr>isMonitoring := False\<rparr>) (sb_monitor b1),
             sb_replaced := []\<rparr>,
          out))"

fun SaturationBox_run ::
  "pointer_event list \<Rightarrow> saturation_box \<Rightarrow> saturation_box \<times> (number \<times> number) surface_event list" where
  "SaturationBox_run [] b = (b, [])"
| "SaturationBox_run (e # es) b =
     (let (b1, out1) = SaturationBox_dispatch e b;
          (b2, out2) = SaturationBox_run es b1
      in (b2, out1 @ out2))"

text \<open>The model's color-change callback; the event carries the model's new color.\<close>

definition SaturationBox_onDidChangeColor :: "hsva \<Rightarrow> saturation_box \<Rightarrow> saturation_box" where
  "SaturationBox_onDidChangeColor c b =
     (if (case sb_monitor b of None \<Rightarrow> False | Some m \<Rightarrow> isMonitoring m) then b
      else paintSelection (saturation c) (brightness c) (paint c b))"

text \<open>No drag is in progress: no pointer-up listener is pending and no monitor is monitoring.\<close>

definition SaturationBox_idle :: "saturation_box \<Rightarrow> bool" where
  "SaturationBox_idle b \<longleftrightarrow>
     sb_pointerUpListeners b = 0 \<and> sb_monitor b = None \<and>
     list_all (\<lambda>m. \<not> isMonitoring m) (sb_replaced b)"

subsection \<open>Strip, OpacityStrip, HueStrip\<close>

datatype strip_kind = OpacityStrip | HueStrip

text \<open>
  The fields of a strip: which subclass it is, the measured height, the slider's \<open>top\<close> in
  pixels, whether the node carries the class \<open>grabbing\<close>, the color the overlay gradient of
  an opacity strip was last computed from, and the drags in progress: one entry for every
  pointer-down whose pointer-up listener is still registered, holding the monitor that
  listener will stop.
\<close>

record strip =
  st_kind :: strip_kind
  st_height :: real
  st_sliderTop :: number
  st_grabbing :: bool
  st_overlay :: "hsva option"
  st_drags :: "pointer_monitor list"

definition Strip_getValue :: "strip_kind \<Rightarrow> hsva \<Rightarrow> number" where
  "Strip_getValue k c =
     (case k of
        OpacityStrip \<Rightarrow> alpha c
      | HueStrip \<Rightarrow> js_sub (Num 1) (js_div (hue c) (Num 360)))"

definition updateSliderPosition :: "number \<Rightarrow> strip \<Rightarrow> strip" where
  "updateSliderPosition val b =
     b\<lparr>st_sliderTop := js_mul (js_sub (Num 1) val) (Num (st_height b))\<rparr>"

definition Strip_layout :: "real \<Rightarrow> real \<Rightarrow> hsva \<Rightarrow> strip \<Rightarrow> strip" where
  "Strip_layout nodeOffsetHeight sliderOffsetHeight model_color b =
     updateSliderPosition (Strip_getValue (st_kind b) model_color)
       (b\<lparr>st_height := nodeOffsetHeight - sliderOffsetHeight\<rparr>)"

text \<open>
  The model's color-change callback: the slider follows the model's value; the opacity
  strip overrides it to recompute its overlay as well.
\<close>

definition Strip_onDidChangeColor :: "hsva \<Rightarrow> strip \<Rightarrow> strip" where
  "Strip_onDidChangeColor c b =
     (let b1 = updateSliderPosition (Strip_getValue (st_kind b) c) b
      in case st_kind b of
           OpacityStrip \<Rightarrow> b1\<lparr>st_overlay := Some c\<rparr>
         | HueStrip \<Rightarrow> b1)"

text \<open>The constructors: slider at \<open>0px\<close>, then the layout on the sizes at that moment.\<close>

definition Strip_new :: "strip_kind \<Rightarrow> real \<Rightarrow> real \<Rightarrow> hsva \<Rightarrow> strip" where
  "Strip_new k nodeOffsetHeight sliderOffsetHeight model_color =
     (let b = Strip_layout nodeOffsetHeight sliderOffsetHeight model_color
                \<lparr>st_kind = k, st_height = 0, st_sliderTop = Num 0, st_grabbing = False,
                 st_overlay = None, st_drags = []\<rparr>
      in case k of
           OpacityStrip \<Rightarrow> Strip_onDidChangeColor model_color b
         | HueStrip \<Rightarrow> b)"

definition Strip_onDidChangeTop :: "real \<Rightarrow> strip \<Rightarrow> strip \<times> number surface_event list" where
  "Strip_onDidChangeTop pos_top b =
     (let val = Math_max (Num 0)
                  (Math_min (Num 1) (js_sub (Num 1) (js_div (Num pos_top) (Num (st_height b)))))
      in (updateSliderPosition val b, [DidChange val]))"

definition Strip_onPointerDown ::
  "pointer_down_event \<Rightarrow> real \<times> real \<Rightarrow> strip \<Rightarrow> strip \<times> number surface_event list" where
  "Strip_onPointerDown e origin b =
     (if target e = NoElement then (b, [])
      else
        let m = \<lparr>origin_left = fst origin, origin_top = snd origin, isMonitoring = False\<rparr>;
            b1 = b\<lparr>st_grabbing := True\<rparr>;
            (b2, out) = (if target e \<noteq> HandleElement
                         then Strip_onDidChangeTop (offsetY e) b1
                         else (b1, []))
        in (b2\<lparr>st_drags := st_drags b2 @ [startMonitoring m]\<rparr>, out))"

text \<open>
  One pointer-up listener, the oldest registered: flush, dispose itself, stop its own
  monitor, remove \<open>grabbing\<close>.
\<close>

definition Strip_pointerUpListener :: "strip \<Rightarrow> strip \<times> number surface_event list" where
  "Strip_pointerUpListener b =
     (b\<lparr>st_drags := tl (st_drags b), st_grabbing := False\<rparr>, [ColorFlushed])"

fun Strip_firePointerUp :: "nat \<Rightarrow> strip \<Rightarrow> strip \<times> number surface_event list" where
  "Strip_firePointerUp 0 b = (b, [])"
| "Strip_firePointerUp (Suc n) b =
     (let (b1, out1) = Strip_pointerUpListener b;
          (b2, out2) = Strip_firePointerUp n b1
      in (b2, out1 @ out2))"

fun Strip_deliverMove ::
  "real \<Rightarrow> pointer_monitor list \<Rightarrow> strip \<Rightarrow> strip \<times> number surface_event list" where
  "Strip_deliverMove pageY [] b = (b, [])"
| "Strip_deliverMove pageY (m # ms) b =
     (if isMonitoring m
      then let (b1, out1) = Strip_onDidChangeTop (pageY - origin_top m) b;
               (b2, out2) = Strip_deliverMove pageY ms b1
           in (b2, out1 @ out2)
      else Strip_deliverMove pageY ms b)"

fun Strip_dispatch :: "pointer_event \<Rightarrow> strip \<Rightarrow> strip \<times> number surface_event list" where
  "Strip_dispatch (PointerDown e origin) b = Strip_onPointerDown e origin b"
| "Strip_dispatch (PointerMove pageX pageY) b = Strip_deliverMove pageY (st_drags b) b"
| "Strip_dispatch PointerUp b = Strip_firePointerUp (length (st_drags b)) b"

fun Strip_run :: "pointer_event list \<Rightarrow> strip \<Rightarrow> strip \<times> number surface_event list" where
  "Strip_run [] b = (b, [])"
| "Strip_run (e # es) b =
     (let (b1, out1) = Strip_dispatch e b;
          (b2, out2) = Strip_run es b1
      in (b2, out1 @ out2))"

text \<open>A drag sequence: a pointer-down, pointer-moves at the given page positions, a pointer-up.\<close>

definition drag_sequence ::
  "pointer_down_event \<Rightarrow> real \<times> real \<Rightarrow> (real \<times> real) list \<Rightarrow> pointer_event list" where
  "drag_sequence e origin moves =
     PointerDown e origin # map (\<lambda>p. PointerMove (fst p) (snd p)) moves @ [PointerUp]"

text \<open>The values the surfaces compute from a position, as \<open>onDidChange\<close> carries them.\<close>

definition SaturationBox_value :: "saturation_box \<Rightarrow> real \<Rightarrow> real \<Rightarrow> number \<times> number" where
  "SaturationBox_value b pos_left pos_top =
     (Math_max (Num 0) (Math_min (Num 1) (js_div (Num pos_left) (Num (sb_width b)))),
      Math_max (Num 0)
        (Math_min (Num 1) (js_sub (Num 1) (js_div (Num pos_top) (Num (sb_height b))))))"

definition Strip_value :: "strip \<Rightarrow> real \<Rightarrow> number" where
  "Strip_value b pos_top =
     Math_max (Num 0)
       (Math_min (Num 1) (js_sub (Num 1) (js_div (Num pos_top) (Num (st_height b)))))"

definition Strip_idle :: "strip \<Rightarrow> bool" where
  "Strip_idle b \<longleftrightarrow> st_drags b = []"

section \<open>Color picker and editor synchronisation (AbstractColorPicker and its subclasses)\<close>

text \<open>
  The calls a picker makes on its collaborators, in the order it makes them: the provider
  (\<open>getColorPresentations\<close> for a color and a range), the text model and the editor
  (\<open>_setTrackedRange\<close>, \<open>executeEdits\<close> with its source, \<open>pushUndoStop\<close>,
  \<open>_getTrackedRange\<close>, \<open>focus\<close>) and the hover context (\<open>hide\<close>).
\<close>

datatype editor_call =
    GetColorPresentations hsva text_range
  | SetTrackedRange text_range
  | ExecuteEdits string "edit_operation list"
  | PushUndoStop
  | GetTrackedRange nat
  | ContextHide
  | EditorFocus

text \<open>
  Modelled from the spec: the color provider and the text model are not part of the sources
  at hand. The provider answers a request with a sequence of presentations or with nothing.
  A tracked range survives an edit transaction with adjusted bounds, or is lost; how the
  bounds move is the text model's business.
\<close>

record environment =
  provideColorPresentations :: "hsva \<Rightarrow> text_range \<Rightarrow> color_presentation list option"
  trackedAfterEdits :: "edit_operation list \<Rightarrow> text_range \<Rightarrow> text_range option"

text \<open>
  What every picker holds: the log of its calls, the text model's tracked ranges (the
  identifier of a tracked range is its position in the list), whether the editor has a
  model, and the color picker model.
\<close>

record picker_base =
  calls :: "editor_call list"
  trackedRanges :: "text_range option list"
  hasModel :: bool
  colorModel :: color_picker_model

text \<open>
  Modelled from the spec: the editor and its text model are not part of the sources at
  hand. \<open>executeEdits\<close> applies its edits as one transaction, which moves the tracked
  ranges, and the buffer-change event this triggers reaches the picker's content listener
  before \<open>executeEdits\<close> returns.
\<close>

definition setTrackedRange ::
  "text_range \<Rightarrow> 'a picker_base_scheme \<Rightarrow> nat \<times> 'a picker_base_scheme" where
  "setTrackedRange r s =
     (length (trackedRanges s),
      s\<lparr>calls := calls s @ [SetTrackedRange r], trackedRanges := trackedRanges s @ [Some r]\<rparr>)"

definition getTrackedRange ::
  "nat \<Rightarrow> 'a picker_base_scheme \<Rightarrow> text_range option \<times> 'a picker_base_scheme" where
  "getTrackedRange i s =
     (if i < length (trackedRanges s) then trackedRanges s ! i else None,
      s\<lparr>calls := calls s @ [GetTrackedRange i]\<rparr>)"

definition executeEdits ::
  "environment \<Rightarrow> ('a picker_base_scheme \<Rightarrow> 'a picker_base_scheme) \<Rightarrow> string
     \<Rightarrow> edit_operation list \<Rightarrow> 'a picker_base_scheme \<Rightarrow> 'a picker_base_scheme" where
  "executeEdits env onDidChangeModelContent source edits s =
     onDidChangeModelContent
       (s\<lparr>calls := calls s @ [ExecuteEdits source edits],
          trackedRanges :=
            map (\<lambda>t. case t of None \<Rightarrow> None | Some r \<Rightarrow> trackedAfterEdits env edits r)
              (trackedRanges s)\<rparr>)"

definition pushUndoStop :: "'a picker_base_scheme \<Rightarrow> 'a picker_base_scheme" where
  "pushUndoStop s = s\<lparr>calls := calls s @ [PushUndoStop]\<rparr>"

subsection \<open>AbstractColorPicker\<close>

text \<open>
  \<open>_updateEditorModel\<close>. Reading \<open>textEdit\<close> of a presentation that is \<open>undefined\<close> raises
  a TypeError before anything is done. The content listener is the one the subclass has
  registered on the editor.
\<close>

definition updateEditorModel ::
  "environment \<Rightarrow> ('a picker_base_scheme \<Rightarrow> 'a picker_base_scheme) \<Rightarrow> text_range
     \<Rightarrow> 'a picker_base_scheme \<Rightarrow> js_error + (text_range \<times> 'a picker_base_scheme)" where
  "updateEditorModel env onDidChangeModelContent rng s =
     (case presentation (colorModel s) of
        None \<Rightarrow> Inl (TypeError ''Cannot read properties of undefined'')
      | Some p \<Rightarrow>
          let edit = (case textEdit p of
                        Some e \<Rightarrow> e
                      | None \<Rightarrow> \<lparr>edit_range = rng, edit_text = label p,
                                  forceMoveMarkers = Some False\<rparr>);
              textEdits = [edit] @ (case additionalTextEdits p of None \<Rightarrow> [] | Some es \<Rightarrow> es);
              replaceRange = edit_range edit;
              (trackedRange, s1) = setTrackedRange replaceRange s;
              s2 = executeEdits env onDidChangeModelContent ''colorpicker'' textEdits s1;
              s3 = pushUndoStop s2;
              (tracked, s4) = getTrackedRange trackedRange s3
          in Inr (case tracked of Some r \<Rightarrow> r | None \<Rightarrow> replaceRange, s4))"

text \<open>
  \<open>_updateColorPresentations\<close> is asynchronous: it asks the provider, and when the answer
  arrives it stores the presentations in the model (none when the answer is nothing).
  Other events may run between the two halves.
\<close>

definition requestColorPresentations ::
  "hsva \<Rightarrow> text_range \<Rightarrow> 'a picker_base_scheme \<Rightarrow> 'a picker_base_scheme" where
  "requestColorPresentations c rng s = s\<lparr>calls := calls s @ [GetColorPresentations c rng]\<rparr>"

definition receiveColorPresentations ::
  "color_presentation list option \<Rightarrow> 'a picker_base_scheme \<Rightarrow> 'a picker_base_scheme" where
  "receiveColorPresentations answer s =
     s\<lparr>colorModel :=
         set_colorPresentations (case answer of None \<Rightarrow> [] | Some ps \<Rightarrow> ps) (colorModel s)\<rparr>"

definition updateColorPresentations ::
  "environment \<Rightarrow> hsva \<Rightarrow> text_range \<Rightarrow> 'a picker_base_scheme \<Rightarrow> 'a picker_base_scheme" where
  "updateColorPresentations env c rng s =
     receiveColorPresentations (provideColorPresentations env c rng)
       (requestColorPresentations c rng s)"

definition hide :: "'a picker_base_scheme \<Rightarrow> 'a picker_base_scheme" where
  "hide s = s\<lparr>calls := calls s @ [ContextHide, EditorFocus]\<rparr>"

text \<open>How often the picker has asked the hover context to hide.\<close>

definition hide_count :: "'a picker_base_scheme \<Rightarrow> nat" where
  "hide_count s = length (filter (\<lambda>c. c = ContextHide) (calls s))"

subsection \<open>HoverColorPicker\<close>

text \<open>The two variables the listeners of the hover variant close over.\<close>

record hover_picker = picker_base +
  hp_range :: text_range
  editorUpdatedByColorPicker :: bool

definition HoverColorPicker_new :: "text_range \<Rightarrow> color_picker_model \<Rightarrow> hover_picker" where
  "HoverColorPicker_new colorHover_range m =
     \<lparr>calls = [], trackedRanges = [], hasModel = True, colorModel = m,
      hp_range = colorHover_range, editorUpdatedByColorPicker = False\<rparr>"

definition HoverColorPicker_onDidChangeModelContent :: "hover_picker \<Rightarrow> hover_picker" where
  "HoverColorPicker_onDidChangeModelContent s =
     (if editorUpdatedByColorPicker s then s\<lparr>editorUpdatedByColorPicker := False\<rparr> else hide s)"

text \<open>
  The flushed listener up to its \<open>await\<close>, and from there on once the presentations have
  arrived. The second half yields the error its promise is rejected with, if any.
\<close>

definition HoverColorPicker_onColorFlushed_request :: "hsva \<Rightarrow> hover_picker \<Rightarrow> hover_picker" where
  "HoverColorPicker_onColorFlushed_request c s = requestColorPresentations c (hp_range s) s"

definition HoverColorPicker_onColorFlushed_resume ::
  "environment \<Rightarrow> color_presentation list option \<Rightarrow> hover_picker
     \<Rightarrow> js_error option \<times> hover_picker" where
  "HoverColorPicker_onColorFlushed_resume env answer s =
     (let s1 = receiveColorPresentations answer s;
          s2 = s1\<lparr>editorUpdatedByColorPicker := True\<rparr>
      in case updateEditorModel env HoverColorPicker_onDidChangeModelContent (hp_range s2) s2 of
           Inl err \<Rightarrow> (Some err, s2)
         | Inr (r, s3) \<Rightarrow> (None, s3\<lparr>hp_range := r\<rparr>))"

text \<open>The flushed listener when nothing else runs while it waits for the provider.\<close>

definition HoverColorPicker_onColorFlushed ::
  "environment \<Rightarrow> hsva \<Rightarrow> hover_picker \<Rightarrow> js_error option \<times> hover_picker" where
  "HoverColorPicker_onColorFlushed env c s =
     HoverColorPicker_onColorFlushed_resume env (provideColorPresentations env c (hp_range s))
       (HoverColorPicker_onColorFlushed_request c s)"

definition HoverColorPicker_onDidChangeColor_request :: "hsva \<Rightarrow> hover_picker \<Rightarrow> hover_picker" where
  "HoverColorPicker_onDidChangeColor_request c s = requestColorPresentations c (hp_range s) s"

text \<open>
  What happens to a hover picker: the model flushes a color, the presentations asked for by
  a flush arrive, the model's color changes, the presentations asked for by a color change
  arrive, or the buffer changes by someone else's edit.
\<close>

datatype hover_picker_event =
    FlushFired hsva
  | FlushAnswered "color_presentation list option"
  | ColorChangeFired hsva
  | ColorChangeAnswered "color_presentation list option"
  | ExternalContentChange

fun HoverColorPicker_step :: "environment \<Rightarrow> hover_picker_event \<Rightarrow> hover_picker \<Rightarrow> hover_picker" where
  "HoverColorPicker_step env (FlushFired c) s = HoverColorPicker_onColorFlushed_request c s"
| "HoverColorPicker_step env (FlushAnswered answer) s =
     snd (HoverColorPicker_onColorFlushed_resume env answer s)"
| "HoverColorPicker_step env (ColorChangeFired c) s = HoverColorPicker_onDidChangeColor_request c s"
| "HoverColorPicker_step env (ColorChangeAnswered answer) s = receiveColorPresentations answer s"
| "HoverColorPicker_step env ExternalContentChange s = HoverColorPicker_onDidChangeModelContent s"

fun HoverColorPicker_run ::
  "environment \<Rightarrow> hover_picker_event list \<Rightarrow> hover_picker \<Rightarrow> hover_picker" where
  "HoverColorPicker_run env [] s = s"
| "HoverColorPicker_run env (e # es) s = HoverColorPicker_run env es (HoverColorPicker_step env e s)"

text \<open>The answer to a flush holds at least one presentation; other events pass.\<close>

fun answers_flush_with_presentation :: "hover_picker_event \<Rightarrow> bool" where
  "answers_flush_with_presentation (FlushAnswered answer) =
     (case answer of None \<Rightarrow> False | Some ps \<Rightarrow> ps \<noteq> [])"
| "answers_flush_with_presentation e = True"

subsection \<open>StandaloneColorPicker\<close>

text \<open>The \<open>_color\<close> field, and the range the listeners close over.\<close>

record standalone_picker = picker_base +
  sp_color :: "hsva option"
  sp_range :: text_range

text \<open>
  The constructor, that is \<open>_registerListeners\<close>: the field takes the model's color and the
  presentations are fetched for it.
\<close>

definition StandaloneColorPicker_new ::
  "environment \<Rightarrow> text_range \<Rightarrow> color_picker_model \<Rightarrow> standalone_picker" where
  "StandaloneColorPicker_new env colorHover_range m =
     updateColorPresentations env (color m) colorHover_range
       \<lparr>calls = [], trackedRanges = [], hasModel = True, colorModel = m,
        sp_color = Some (color m), sp_range = colorHover_range\<rparr>"

definition StandaloneColorPicker_onColorFlushed :: "hsva \<Rightarrow> standalone_picker \<Rightarrow> standalone_picker" where
  "StandaloneColorPicker_onColorFlushed c s = s\<lparr>sp_color := Some c\<rparr>"

definition StandaloneColorPicker_onDidChangeModelContent :: "standalone_picker \<Rightarrow> standalone_picker" where
  "StandaloneColorPicker_onDidChangeModelContent s = hide s"

definition StandaloneColorPicker_onDidChangeColor ::
  "environment \<Rightarrow> hsva \<Rightarrow> standalone_picker \<Rightarrow> standalone_picker" where
  "StandaloneColorPicker_onDidChangeColor env c s = updateColorPresentations env c (sp_range s) s"

text \<open>
  The public \<open>updateEditorModel(colorHover)\<close>, for the color hover the picker was built
  from, when nothing else runs while it waits for the provider.
\<close>

definition StandaloneColorPicker_updateEditorModel ::
  "environment \<Rightarrow> text_range \<Rightarrow> standalone_picker \<Rightarrow> js_error option \<times> standalone_picker" where
  "StandaloneColorPicker_updateEditorModel env colorHover_range s =
     (if \<not> hasModel s then (None, s)
      else case sp_color s of
             None \<Rightarrow> (None, s)
           | Some c \<Rightarrow>
               (let s1 = updateColorPresentations env c colorHover_range s
                in case updateEditorModel env StandaloneColorPicker_onDidChangeModelContent
                          colorHover_range s1 of
                     Inl err \<Rightarrow> (Some err, s1)
                   | Inr (r, s2) \<Rightarrow> (None, s2)))"

text \<open>
  What happens to a standalone picker between its construction and a call of
  \<open>updateEditorModel\<close>: the model flushes a color, the model's color changes, or the buffer
  changes.
\<close>

datatype standalone_picker_event =
    StandaloneFlush hsva
  | StandaloneColorChange hsva
  | StandaloneContentChange

fun StandaloneColorPicker_step ::
  "environment \<Rightarrow> standalone_picker_event \<Rightarrow> standalone_picker \<Rightarrow> standalone_picker" where
  "StandaloneColorPicker_step env (StandaloneFlush c) s = StandaloneColorPicker_onColorFlushed c s"
| "StandaloneColorPicker_step env (StandaloneColorChange c) s =
     StandaloneColorPicker_onDidChangeColor env c s"
| "StandaloneColorPicker_step env StandaloneContentChange s =
     StandaloneColorPicker_onDidChangeModelContent s"

fun StandaloneColorPicker_run ::
  "environment \<Rightarrow> standalone_picker_event list \<Rightarrow> standalone_picker \<Rightarrow> standalone_picker" where
  "StandaloneColorPicker_run env [] s = s"
| "StandaloneColorPicker_run env (e # es) s =
     StandaloneColorPicker_run env es (StandaloneColorPicker_step env e s)"

text \<open>The color flushed last in a sequence of events, or the given one when none was.\<close>

fun last_flushed :: "standalone_picker_event list \<Rightarrow> hsva \<Rightarrow> hsva" where
  "last_flushed [] c0 = c0"
| "last_flushed (StandaloneFlush c # es) c0 = last_flushed es c"
| "last_flushed (e # es) c0 = last_flushed es c0"

text \<open>Whether a call applies a text edit.\<close>

fun is_edit :: "editor_call \<Rightarrow> bool" where
  "is_edit (ExecuteEdits source edits) = True"
| "is_edit c = False"

subsection \<open>The edits of a presentation, and a simple environment\<close>

text \<open>
  The primary edit of a presentation for a range (its own text edit, or else the range
  replaced by its label), and the whole transaction: the primary edit followed by the
  additional edits the provider supplied.
\<close>

definition primary_edit :: "text_range \<Rightarrow> color_presentation \<Rightarrow> edit_operation" where
  "primary_edit rng p =
     (case textEdit p of
        Some e \<Rightarrow> e
      | None \<Rightarrow> \<lparr>edit_range = rng, edit_text = label p, forceMoveMarkers = Some False\<rparr>)"

definition all_edits :: "text_range \<Rightarrow> color_presentation \<Rightarrow> edit_operation list" where
  "all_edits rng p =
     primary_edit rng p # (case additionalTextEdits p of None \<Rightarrow> [] | Some es \<Rightarrow> es)"

text \<open>
  A provider that answers every request with the same presentations, and a text model in
  which an edit leaves every tracked range where it is.
\<close>

definition provider_answering ::
  "color_presentation list \<Rightarrow> hsva \<Rightarrow> text_range \<Rightarrow> color_presentation list option" where
  "provider_answering ps c rng = Some ps"

definition ranges_stay :: "edit_operation list \<Rightarrow> text_range \<Rightarrow> text_range option" where
  "ranges_stay edits rng = Some rng"

section \<open>Properties of the accessible view\<close>

text \<open>
  C9. The two accessible-view \<open>getProvider\<close> methods throw the error
  "No active or focused code editor" exactly when there is neither an active nor a focused
  code editor; when an editor exists and no hover controller is found on it, they return
  \<open>undefined\<close> without throwing and leave the \<open>_provider\<close> field as it was.
\<close>

theorem getProvider_throws_iff_no_editor:
  "(HoverAccessibleView_getProvider acc f = Inl (Error no_editor_message)
      \<longleftrightarrow> getActiveCodeEditor acc = None \<and> getFocusedCodeEditor acc = None) \<and>
   (isl (HoverAccessibleView_getProvider acc f)
      \<longleftrightarrow> getActiveCodeEditor acc = None \<and> getFocusedCodeEditor acc = None) \<and>
   (HoverAccessibilityHelp_getProvider acc f = Inl (Error no_editor_message)
      \<longleftrightarrow> getActiveCodeEditor acc = None \<and> getFocusedCodeEditor acc = None) \<and>
   (isl (HoverAccessibilityHelp_getProvider acc f)
      \<longleftrightarrow> getActiveCodeEditor acc = None \<and> getFocusedCodeEditor acc = None) \<and>
   (or_else (getActiveCodeEditor acc) (getFocusedCodeEditor acc) = Some e \<and>
      HoverController_get acc e = None \<longrightarrow>
      HoverAccessibleView_getProvider acc f = Inr (None, f) \<and>
      HoverAccessibilityHelp_getProvider acc f = Inr (None, f))"
  by (auto simp: HoverAccessibleView_getProvider_def HoverAccessibilityHelp_getProvider_def
        or_else_def Let_def split: option.splits)

theorem getProvider_throws_iff_no_editor_witness:
  "or_else (getActiveCodeEditor
        \<lparr>getActiveCodeEditor = None, getFocusedCodeEditor = Some 7, HoverController_get = Map.empty\<rparr>)
     (getFocusedCodeEditor
        \<lparr>getActiveCodeEditor = None, getFocusedCodeEditor = Some 7, HoverController_get = Map.empty\<rparr>)
     = Some 7 \<and>
   HoverController_get
     \<lparr>getActiveCodeEditor = None, getFocusedCodeEditor = Some 7, HoverController_get = Map.empty\<rparr> 7
     = None \<and>
   HoverAccessibleView_getProvider
     \<lparr>getActiveCodeEditor = None, getFocusedCodeEditor = Some 7, HoverController_get = Map.empty\<rparr>
     None = Inr (None, None) \<and>
   HoverAccessibilityHelp_getProvider
     \<lparr>getActiveCodeEditor = None, getFocusedCodeEditor = Some 7, HoverController_get = Map.empty\<rparr>
     None = Inr (None, None)"
  using getProvider_throws_iff_no_editor
    [of "\<lparr>getActiveCodeEditor = None, getFocusedCodeEditor = Some 7,
          HoverController_get = Map.empty\<rparr>" None 7]
  by (simp add: or_else_def)

section \<open>Properties of the hover controller\<close>

text \<open>
  C4. A call of the hide routine while the mouse button is down, the hover is recorded as
  clicked (which is how the controller remembers that the last mouse-down landed on the
  content hover widget) and the color picker is visible changes nothing: both widgets stay
  as they are, and so do the clicked and sticky flags. A mouse-down on the content hover
  widget puts the controller in that state without touching the widgets, so a hide
  requested during the click gesture leaves an open color picker shown.
\<close>

theorem hideWidgets_kept_during_color_picker_click:
  "(isMouseDown c \<and> hoverClicked c \<and> isColorPickerVisible c \<longrightarrow> hideWidgets c = c) \<and>
   (target_type t = CONTENT_WIDGET \<and> target_detail t = Some ModesContentHoverWidget_ID \<longrightarrow>
      isMouseDown (onEditorMouseDown t c) \<and> hoverClicked (onEditorMouseDown t c) \<and>
      contentWidget (onEditorMouseDown t c) = contentWidget c \<and>
      glyphWidget (onEditorMouseDown t c) = glyphWidget c \<and>
      isCurrentSticky (onEditorMouseDown t c) = isCurrentSticky c \<and>
      (isColorPickerVisible c \<longrightarrow> hideWidgets (onEditorMouseDown t c) = onEditorMouseDown t c))"
  by (auto simp: hideWidgets_def onEditorMouseDown_def Let_def isColorPickerVisible_def)

theorem hideWidgets_kept_during_color_picker_click_witness:
  "isMouseDown
     \<lparr>isMouseDown = True, hoverClicked = True, isHoverEnabled = True, isHoverSticky = True,
      isCurrentSticky = True,
      contentWidget = Some \<lparr>content_shown = True, colorPickerVisible = True\<rparr>,
      glyphWidget = Some \<lparr>glyph_shown = True\<rparr>\<rparr> \<and>
   hoverClicked
     \<lparr>isMouseDown = True, hoverClicked = True, isHoverEnabled = True, isHoverSticky = True,
      isCurrentSticky = True,
      contentWidget = Some \<lparr>content_shown = True, colorPickerVisible = True\<rparr>,
      glyphWidget = Some \<lparr>glyph_shown = True\<rparr>\<rparr> \<and>
   isColorPickerVisible
     \<lparr>isMouseDown = True, hoverClicked = True, isHoverEnabled = True, isHoverSticky = True,
      isCurrentSticky = True,
      contentWidget = Some \<lparr>content_shown = True, colorPickerVisible = True\<rparr>,
      glyphWidget = Some \<lparr>glyph_shown = True\<rparr>\<rparr> \<and>
   hideWidgets
     \<lparr>isMouseDown = True, hoverClicked = True, isHoverEnabled = True, isHoverSticky = True,
      isCurrentSticky = True,
      contentWidget = Some \<lparr>content_shown = True, colorPickerVisible = True\<rparr>,
      glyphWidget = Some \<lparr>glyph_shown = True\<rparr>\<rparr>
   = \<lparr>isMouseDown = True, hoverClicked = True, isHoverEnabled = True, isHoverSticky = True,
      isCurrentSticky = True,
      contentWidget = Some \<lparr>content_shown = True, colorPickerVisible = True\<rparr>,
      glyphWidget = Some \<lparr>glyph_shown = True\<rparr>\<rparr> \<and>
   target_type \<lparr>target_type = CONTENT_WIDGET, target_detail = Some ModesContentHoverWidget_ID\<rparr>
     = CONTENT_WIDGET \<and>
   target_detail \<lparr>target_type = CONTENT_WIDGET, target_detail = Some ModesContentHoverWidget_ID\<rparr>
     = Some ModesContentHoverWidget_ID \<and>
   isColorPickerVisible
     \<lparr>isMouseDown = False, hoverClicked = False, isHoverEnabled = True, isHoverSticky = True,
      isCurrentSticky = False,
      contentWidget = Some \<lparr>content_shown = True, colorPickerVisible = True\<rparr>,
      glyphWidget = None\<rparr> \<and>
   hideWidgets
     (onEditorMouseDown
        \<lparr>target_type = CONTENT_WIDGET, target_detail = Some ModesContentHoverWidget_ID\<rparr>
        \<lparr>isMouseDown = False, hoverClicked = False, isHoverEnabled = True, isHoverSticky = True,
         isCurrentSticky = False,
         contentWidget = Some \<lparr>content_shown = True, colorPickerVisible = True\<rparr>,
         glyphWidget = None\<rparr>)
   = \<lparr>isMouseDown = True, hoverClicked = True, isHoverEnabled = True, isHoverSticky = True,
      isCurrentSticky = False,
      contentWidget = Some \<lparr>content_shown = True, colorPickerVisible = True\<rparr>,
      glyphWidget = None\<rparr>"
proof -
  let ?t = "\<lparr>target_type = CONTENT_WIDGET, target_detail = Some ModesContentHoverWidget_ID\<rparr>"
  let ?c1 = "\<lparr>isMouseDown = True, hoverClicked = True, isHoverEnabled = True,
              isHoverSticky = True, isCurrentSticky = True,
              contentWidget = Some \<lparr>content_shown = True, colorPickerVisible = True\<rparr>,
              glyphWidget = Some \<lparr>glyph_shown = True\<rparr>\<rparr>"
  let ?c2 = "\<lparr>isMouseDown = False, hoverClicked = False, isHoverEnabled = True,
              isHoverSticky = True, isCurrentSticky = False,
              contentWidget = Some \<lparr>content_shown = True, colorPickerVisible = True\<rparr>,
              glyphWidget = None\<rparr>"
  have d: "onEditorMouseDown ?t ?c2 = ?c2\<lparr>isMouseDown := True, hoverClicked := True\<rparr>"
    by (simp add: onEditorMouseDown_def Let_def)
  have v: "isColorPickerVisible ?c1" "isColorPickerVisible ?c2"
    by (simp_all add: isColorPickerVisible_def)
  show ?thesis
    using hideWidgets_kept_during_color_picker_click[of ?c1 ?t]
      hideWidgets_kept_during_color_picker_click[of ?c2 ?t] v d
    by simp
qed

text \<open>
  C5, as the claim states it, fails. With the mouse button down after a mouse-down on the
  content hover widget and the color picker visible, a scroll event whose scroll top
  changed leaves both widgets shown: the scroll handler goes through the same hide routine
  as every other transition, and that routine returns early in this state.
\<close>

theorem scroll_keeps_clicked_color_picker:
  "scrollTopChanged \<lparr>scrollTopChanged = True, scrollLeftChanged = False\<rparr> \<and>
   onEditorScrollChanged \<lparr>scrollTopChanged = True, scrollLeftChanged = False\<rparr>
     \<lparr>isMouseDown = True, hoverClicked = True, isHoverEnabled = True, isHoverSticky = True,
      isCurrentSticky = False,
      contentWidget = Some \<lparr>content_shown = True, colorPickerVisible = True\<rparr>,
      glyphWidget = Some \<lparr>glyph_shown = True\<rparr>\<rparr>
   = \<lparr>isMouseDown = True, hoverClicked = True, isHoverEnabled = True, isHoverSticky = True,
      isCurrentSticky = False,
      contentWidget = Some \<lparr>content_shown = True, colorPickerVisible = True\<rparr>,
      glyphWidget = Some \<lparr>glyph_shown = True\<rparr>\<rparr> \<and>
   \<not> widgets_hidden
     (onEditorScrollChanged \<lparr>scrollTopChanged = True, scrollLeftChanged = False\<rparr>
        \<lparr>isMouseDown = True, hoverClicked = True, isHoverEnabled = True, isHoverSticky = True,
         isCurrentSticky = False,
         contentWidget = Some \<lparr>content_shown = True, colorPickerVisible = True\<rparr>,
         glyphWidget = Some \<lparr>glyph_shown = True\<rparr>\<rparr>)"
  by (simp add: onEditorScrollChanged_def hideWidgets_def isColorPickerVisible_def
        widgets_hidden_def)

text \<open>
  C5, amended. For every scroll event in which the scroll top or the scroll left changed,
  the controller runs the hide routine whatever the sticky state is: both widgets end up
  hidden and the sticky and clicked flags are cleared, except when the mouse button is
  down, the hover is recorded as clicked and the color picker is visible, in which case the
  controller is left as it was.
\<close>

theorem scroll_hides_unless_color_picker_clicked:
  assumes "scrollTopChanged e \<or> scrollLeftChanged e"
  shows "if isMouseDown c \<and> hoverClicked c \<and> isColorPickerVisible c
         then onEditorScrollChanged e c = c
         else widgets_hidden (onEditorScrollChanged e c) \<and>
              \<not> isCurrentSticky (onEditorScrollChanged e c) \<and>
              \<not> hoverClicked (onEditorScrollChanged e c)"
  using assms
  by (auto simp: onEditorScrollChanged_def hideWidgets_def widgets_hidden_def
        ModesContentHoverWidget_hide_def ModesGlyphHoverWidget_hide_def split: option.splits)

theorem scroll_hides_unless_color_picker_clicked_witness:
  "scrollLeftChanged \<lparr>scrollTopChanged = False, scrollLeftChanged = True\<rparr> \<and>
   widgets_hidden
     (onEditorScrollChanged \<lparr>scrollTopChanged = False, scrollLeftChanged = True\<rparr>
        \<lparr>isMouseDown = False, hoverClicked = True, isHoverEnabled = True, isHoverSticky = True,
         isCurrentSticky = True,
         contentWidget = Some \<lparr>content_shown = True, colorPickerVisible = True\<rparr>,
         glyphWidget = Some \<lparr>glyph_shown = True\<rparr>\<rparr>) \<and>
   \<not> isCurrentSticky
     (onEditorScrollChanged \<lparr>scrollTopChanged = False, scrollLeftChanged = True\<rparr>
        \<lparr>isMouseDown = False, hoverClicked = True, isHoverEnabled = True, isHoverSticky = True,
         isCurrentSticky = True,
         contentWidget = Some \<lparr>content_shown = True, colorPickerVisible = True\<rparr>,
         glyphWidget = Some \<lparr>glyph_shown = True\<rparr>\<rparr>)"
  using scroll_hides_unless_color_picker_clicked
    [of "\<lparr>scrollTopChanged = False, scrollLeftChanged = True\<rparr>"
        "\<lparr>isMouseDown = False, hoverClicked = True, isHoverEnabled = True, isHoverSticky = True,
          isCurrentSticky = True,
          contentWidget = Some \<lparr>content_shown = True, colorPickerVisible = True\<rparr>,
          glyphWidget = Some \<lparr>glyph_shown = True\<rparr>\<rparr>"]
  by simp

section \<open>Properties of the input surfaces\<close>

subsection \<open>What a position change and a pointer-down do\<close>

lemma SaturationBox_onDidChangePosition_eq:
  "SaturationBox_onDidChangePosition l t b =
     (paintSelection (fst (SaturationBox_value b l t)) (snd (SaturationBox_value b l t)) b,
      [DidChange (SaturationBox_value b l t)])"
  by (simp add: SaturationBox_onDidChangePosition_def SaturationBox_value_def Let_def)

lemma SaturationBox_value_paintSelection [simp]:
  "SaturationBox_value (paintSelection s v b) = SaturationBox_value b"
  by (simp add: SaturationBox_value_def paintSelection_def fun_eq_iff)

lemma paintSelection_fields [simp]:
  "sb_monitor (paintSelection s v b) = sb_monitor b"
  "sb_replaced (paintSelection s v b) = sb_replaced b"
  "sb_pointerUpListeners (paintSelection s v b) = sb_pointerUpListeners b"
  "sb_width (paintSelection s v b) = sb_width b"
  "sb_height (paintSelection s v b) = sb_height b"
  by (simp_all add: paintSelection_def)

lemma SaturationBox_deliverMove_none:
  "list_all (\<lambda>m. \<not> isMonitoring m) ms \<Longrightarrow> SaturationBox_deliverMove x y ms b = (b, [])"
  by (induction ms) auto

lemma SaturationBox_deliverMove_last:
  "list_all (\<lambda>m. \<not> isMonitoring m) ms \<Longrightarrow> isMonitoring m \<Longrightarrow>
   SaturationBox_deliverMove x y (ms @ [m]) b =
     SaturationBox_onDidChangePosition (x - origin_left m) (y - origin_top m) b"
  by (induction ms) (auto split: prod.splits)

lemma SaturationBox_run_append:
  "SaturationBox_run (xs @ ys) b =
     (let (b1, out1) = SaturationBox_run xs b; (b2, out2) = SaturationBox_run ys b1
      in (b2, out1 @ out2))"
  by (induction xs arbitrary: b) (auto split: prod.splits)

lemma SaturationBox_run_moves:
  "sb_monitor b = Some m \<Longrightarrow> isMonitoring m \<Longrightarrow>
   list_all (\<lambda>m. \<not> isMonitoring m) (sb_replaced b) \<Longrightarrow>
   sb_monitor (fst (SaturationBox_run (map (\<lambda>p. PointerMove (fst p) (snd p)) moves) b)) = Some m \<and>
   sb_replaced (fst (SaturationBox_run (map (\<lambda>p. PointerMove (fst p) (snd p)) moves) b))
     = sb_replaced b \<and>
   sb_pointerUpListeners (fst (SaturationBox_run (map (\<lambda>p. PointerMove (fst p) (snd p)) moves) b))
     = sb_pointerUpListeners b \<and>
   snd (SaturationBox_run (map (\<lambda>p. PointerMove (fst p) (snd p)) moves) b) =
     map (\<lambda>p. DidChange (SaturationBox_value b (fst p - origin_left m) (snd p - origin_top m))) moves"
proof (induction moves arbitrary: b)
  case Nil
  then show ?case by simp
next
  case (Cons p moves)
  let ?v = "SaturationBox_value b (fst p - origin_left m) (snd p - origin_top m)"
  let ?b1 = "paintSelection (fst ?v) (snd ?v) b"
  have step: "SaturationBox_dispatch (PointerMove (fst p) (snd p)) b = (?b1, [DidChange ?v])"
    using Cons.prems
    by (simp add: SaturationBox_deliverMove_last SaturationBox_onDidChangePosition_eq)
  have pre: "sb_monitor ?b1 = Some m" "list_all (\<lambda>m. \<not> isMonitoring m) (sb_replaced ?b1)"
    using Cons.prems by simp_all
  from Cons.IH[OF pre(1) Cons.prems(2) pre(2)] step show ?case
    by (simp add: split_beta)
qed

lemma SaturationBox_onPointerDown_idle:
  assumes "SaturationBox_idle b" "target e \<noteq> NoElement"
  shows "snd (SaturationBox_onPointerDown e origin b) =
           (if target e = HandleElement then []
            else [DidChange (SaturationBox_value b (offsetX e) (offsetY e))])"
    and "sb_monitor (fst (SaturationBox_onPointerDown e origin b)) =
           Some \<lparr>origin_left = fst origin, origin_top = snd origin, isMonitoring = True\<rparr>"
    and "sb_replaced (fst (SaturationBox_onPointerDown e origin b)) = sb_replaced b"
    and "sb_pointerUpListeners (fst (SaturationBox_onPointerDown e origin b)) = 1"
    and "SaturationBox_value (fst (SaturationBox_onPointerDown e origin b)) = SaturationBox_value b"
  using assms
  by (simp_all add: SaturationBox_onPointerDown_def SaturationBox_idle_def Let_def
        SaturationBox_onDidChangePosition_eq startMonitoring_def SaturationBox_value_def fun_eq_iff
        paintSelection_def)

lemma SaturationBox_drag:
  assumes "SaturationBox_idle b" "target e \<noteq> NoElement"
  shows "snd (SaturationBox_run (drag_sequence e origin moves) b) =
      (if target e = HandleElement then []
       else [DidChange (SaturationBox_value b (offsetX e) (offsetY e))]) @
      map (\<lambda>p. DidChange (SaturationBox_value b (fst p - fst origin) (snd p - snd origin))) moves @
      [ColorFlushed] \<and>
    SaturationBox_idle (fst (SaturationBox_run (drag_sequence e origin moves) b))"
proof -
  let ?m = "\<lparr>origin_left = fst origin, origin_top = snd origin, isMonitoring = True\<rparr>"
  let ?b1 = "fst (SaturationBox_onPointerDown e origin b)"
  let ?mv = "map (\<lambda>p. PointerMove (fst p) (snd p)) moves"
  let ?b2 = "fst (SaturationBox_run ?mv ?b1)"
  note d = SaturationBox_onPointerDown_idle[OF assms, of origin]
  have idle: "list_all (\<lambda>m. \<not> isMonitoring m) (sb_replaced ?b1)"
    using assms d(3) by (simp add: SaturationBox_idle_def)
  have mv: "sb_monitor ?b2 = Some ?m" "sb_replaced ?b2 = sb_replaced b"
      "sb_pointerUpListeners ?b2 = 1"
      "snd (SaturationBox_run ?mv ?b1) =
        map (\<lambda>p. DidChange (SaturationBox_value b (fst p - fst origin) (snd p - snd origin))) moves"
    using SaturationBox_run_moves[OF d(2) _ idle, of moves] d by simp_all
  have up: "snd (SaturationBox_run [PointerUp] ?b2) = [ColorFlushed]"
     "SaturationBox_idle (fst (SaturationBox_run [PointerUp] ?b2))"
    using mv assms
    by (simp_all add: SaturationBox_pointerUpListener_def SaturationBox_idle_def)
  show ?thesis
    using d(1) mv(4) up
    by (simp add: drag_sequence_def SaturationBox_run_append split_beta)
qed


lemma Strip_onDidChangeTop_eq:
  "Strip_onDidChangeTop t b = (updateSliderPosition (Strip_value b t) b, [DidChange (Strip_value b t)])"
  by (simp add: Strip_onDidChangeTop_def Strip_value_def Let_def)

lemma updateSliderPosition_fields [simp]:
  "st_drags (updateSliderPosition v b) = st_drags b"
  "st_height (updateSliderPosition v b) = st_height b"
  "st_kind (updateSliderPosition v b) = st_kind b"
  "st_grabbing (updateSliderPosition v b) = st_grabbing b"
  "Strip_value (updateSliderPosition v b) = Strip_value b"
  by (simp_all add: updateSliderPosition_def Strip_value_def fun_eq_iff)

lemma Strip_run_append:
  "Strip_run (xs @ ys) b =
     (let (b1, out1) = Strip_run xs b; (b2, out2) = Strip_run ys b1 in (b2, out1 @ out2))"
  by (induction xs arbitrary: b) (auto split: prod.splits)

lemma Strip_run_moves:
  "st_drags b = [m] \<Longrightarrow> isMonitoring m \<Longrightarrow>
   st_drags (fst (Strip_run (map (\<lambda>p. PointerMove (fst p) (snd p)) moves) b)) = [m] \<and>
   snd (Strip_run (map (\<lambda>p. PointerMove (fst p) (snd p)) moves) b) =
     map (\<lambda>p. DidChange (Strip_value b (snd p - origin_top m))) moves"
proof (induction moves arbitrary: b)
  case Nil
  then show ?case by simp
next
  case (Cons p moves)
  let ?b1 = "updateSliderPosition (Strip_value b (snd p - origin_top m)) b"
  have step: "Strip_dispatch (PointerMove (fst p) (snd p)) b =
      (?b1, [DidChange (Strip_value b (snd p - origin_top m))])"
    using Cons.prems by (simp add: Strip_onDidChangeTop_eq)
  have pre: "st_drags ?b1 = [m]"
    using Cons.prems by simp
  from Cons.IH[OF pre Cons.prems(2)] step show ?case
    by (simp add: split_beta)
qed

lemma Strip_onPointerDown_idle:
  assumes "Strip_idle b" "target e \<noteq> NoElement"
  shows "snd (Strip_onPointerDown e origin b) =
           (if target e = HandleElement then [] else [DidChange (Strip_value b (offsetY e))])"
    and "st_drags (fst (Strip_onPointerDown e origin b)) =
           [\<lparr>origin_left = fst origin, origin_top = snd origin, isMonitoring = True\<rparr>]"
    and "Strip_value (fst (Strip_onPointerDown e origin b)) = Strip_value b"
  using assms
  by (simp_all add: Strip_onPointerDown_def Strip_idle_def Let_def
        Strip_onDidChangeTop_eq startMonitoring_def Strip_value_def fun_eq_iff
        updateSliderPosition_def)

lemma Strip_drag:
  assumes "Strip_idle b" "target e \<noteq> NoElement"
  shows "snd (Strip_run (drag_sequence e origin moves) b) =
      (if target e = HandleElement then [] else [DidChange (Strip_value b (offsetY e))]) @
      map (\<lambda>p. DidChange (Strip_value b (snd p - snd origin))) moves @ [ColorFlushed] \<and>
    Strip_idle (fst (Strip_run (drag_sequence e origin moves) b))"
proof -
  let ?m = "\<lparr>origin_left = fst origin, origin_top = snd origin, isMonitoring = True\<rparr>"
  let ?b1 = "fst (Strip_onPointerDown e origin b)"
  let ?mv = "map (\<lambda>p. PointerMove (fst p) (snd p)) moves"
  let ?b2 = "fst (Strip_run ?mv ?b1)"
  note d = Strip_onPointerDown_idle[OF assms, of origin]
  have mv: "st_drags ?b2 = [?m]"
      "snd (Strip_run ?mv ?b1) = map (\<lambda>p. DidChange (Strip_value b (snd p - snd origin))) moves"
    using Strip_run_moves[OF d(2), of moves] d by simp_all
  have up: "snd (Strip_run [PointerUp] ?b2) = [ColorFlushed]"
     "Strip_idle (fst (Strip_run [PointerUp] ?b2))"
    using mv by (simp_all add: Strip_pointerUpListener_def Strip_idle_def)
  show ?thesis
    using d(1) mv(2) up
    by (simp add: drag_sequence_def Strip_run_append split_beta)
qed


lemma pointer_down_on_no_element_is_ignored:
  "target e = NoElement \<Longrightarrow>
   SaturationBox_onPointerDown e origin b = (b, []) \<and> Strip_onPointerDown e origin st = (st, [])"
  by (simp add: SaturationBox_onPointerDown_def Strip_onPointerDown_def)

lemma SaturationBox_new_idle: "SaturationBox_idle (SaturationBox_new w h c)"
  by (simp add: SaturationBox_idle_def SaturationBox_new_def SaturationBox_layout_def paint_def
        paintSelection_def)

lemma Strip_new_idle: "Strip_idle (Strip_new k nh sh c)"
  by (simp add: Strip_idle_def Strip_new_def Strip_layout_def Strip_onDidChangeColor_def Let_def
        split: strip_kind.splits)

text \<open>
  C3. A drag sequence on a surface is a pointer-down on one of its elements, any number of
  pointer-moves and a pointer-up, starting when no other drag on the surface is in
  progress. For the saturation box and for a strip alike, what the surface emits over the
  whole sequence is: one \<open>onDidChange\<close> for the pointer-down unless it landed on the
  selection circle or slider, one \<open>onDidChange\<close> for every pointer-move, and then
  \<open>onColorFlushed\<close> exactly once, as the last event, fired by the pointer-up. Afterwards
  the surface is idle again, so the same holds for the next drag. (A pointer-down whose
  target is no element starts no drag: the handler returns at once.)
\<close>

theorem drag_flushes_once_on_pointer_up:
  assumes "target e \<noteq> NoElement" "SaturationBox_idle box" "Strip_idle st"
  shows "snd (SaturationBox_run (drag_sequence e origin moves) box) =
           (if target e = HandleElement then []
            else [DidChange (SaturationBox_value box (offsetX e) (offsetY e))]) @
           map (\<lambda>p. DidChange (SaturationBox_value box (fst p - fst origin) (snd p - snd origin)))
             moves @
           [ColorFlushed] \<and>
         SaturationBox_idle (fst (SaturationBox_run (drag_sequence e origin moves) box)) \<and>
         snd (Strip_run (drag_sequence e origin moves) st) =
           (if target e = HandleElement then [] else [DidChange (Strip_value st (offsetY e))]) @
           map (\<lambda>p. DidChange (Strip_value st (snd p - snd origin))) moves @
           [ColorFlushed] \<and>
         Strip_idle (fst (Strip_run (drag_sequence e origin moves) st))"
  using SaturationBox_drag[OF assms(2,1)] Strip_drag[OF assms(3,1)] by simp

theorem drag_flushes_once_on_pointer_up_witness:
  "target \<lparr>target = OtherElement, offsetX = 50, offsetY = 25\<rparr> \<noteq> NoElement \<and>
   SaturationBox_idle
     (SaturationBox_new 200 100 \<lparr>hue = Num 0, saturation = Num 1, brightness = Num 1, alpha = Num 1\<rparr>) \<and>
   Strip_idle
     (Strip_new HueStrip 110 10 \<lparr>hue = Num 0, saturation = Num 1, brightness = Num 1, alpha = Num 1\<rparr>) \<and>
   snd (SaturationBox_run
          (drag_sequence \<lparr>target = OtherElement, offsetX = 50, offsetY = 25\<rparr> (10, 20) [(110, 70)])
          (SaturationBox_new 200 100
             \<lparr>hue = Num 0, saturation = Num 1, brightness = Num 1, alpha = Num 1\<rparr>))
     = [DidChange (Num (1 / 4), Num (3 / 4)), DidChange (Num (1 / 2), Num (1 / 2)), ColorFlushed] \<and>
   snd (Strip_run
          (drag_sequence \<lparr>target = OtherElement, offsetX = 50, offsetY = 25\<rparr> (10, 20) [(110, 70)])
          (Strip_new HueStrip 110 10
             \<lparr>hue = Num 0, saturation = Num 1, brightness = Num 1, alpha = Num 1\<rparr>))
     = [DidChange (Num (3 / 4)), DidChange (Num (1 / 2)), ColorFlushed]"
proof -
  have i1: "SaturationBox_idle
     (SaturationBox_new 200 100 \<lparr>hue = Num 0, saturation = Num 1, brightness = Num 1, alpha = Num 1\<rparr>)"
    by (rule SaturationBox_new_idle)
  have i2: "Strip_idle
     (Strip_new HueStrip 110 10 \<lparr>hue = Num 0, saturation = Num 1, brightness = Num 1, alpha = Num 1\<rparr>)"
    by (rule Strip_new_idle)
  have t: "target \<lparr>target = OtherElement, offsetX = 50, offsetY = 25\<rparr> \<noteq> NoElement" by simp
  have w: "sb_width (SaturationBox_new 200 100 \<lparr>hue = Num 0, saturation = Num 1, brightness = Num 1, alpha = Num 1\<rparr>) = 200"
     "sb_height (SaturationBox_new 200 100 \<lparr>hue = Num 0, saturation = Num 1, brightness = Num 1, alpha = Num 1\<rparr>) = 100"
     "st_height (Strip_new HueStrip 110 10 \<lparr>hue = Num 0, saturation = Num 1, brightness = Num 1, alpha = Num 1\<rparr>) = 100"
    by (simp_all add: SaturationBox_new_def SaturationBox_layout_def paint_def paintSelection_def
          Strip_new_def Strip_layout_def updateSliderPosition_def)
  show ?thesis
    using drag_flushes_once_on_pointer_up[OF t i1 i2, of "(10, 20)" "[(110, 70)]"] i1 i2
    by (simp add: SaturationBox_value_def Strip_value_def w)
qed

text \<open>
  C6, as the claim states it, fails for the strips. A hue strip on which a drag has just
  begun (pointer-down on its slider, the monitor is monitoring) receives a color change of
  the model and moves its slider from \<open>0px\<close> to \<open>50px\<close>.
\<close>

theorem strip_follows_model_during_drag:
  "fst (Strip_onPointerDown \<lparr>target = HandleElement, offsetX = 0, offsetY = 0\<rparr> (0, 0)
      (Strip_new HueStrip 100 0 \<lparr>hue = Num 0, saturation = Num 1, brightness = Num 1, alpha = Num 1\<rparr>))
   = \<lparr>st_kind = HueStrip, st_height = 100, st_sliderTop = Num 0, st_grabbing = True,
      st_overlay = None,
      st_drags = [\<lparr>origin_left = 0, origin_top = 0, isMonitoring = True\<rparr>]\<rparr> \<and>
   Strip_onDidChangeColor \<lparr>hue = Num 180, saturation = Num 1, brightness = Num 1, alpha = Num 1\<rparr>
     \<lparr>st_kind = HueStrip, st_height = 100, st_sliderTop = Num 0, st_grabbing = True,
      st_overlay = None,
      st_drags = [\<lparr>origin_left = 0, origin_top = 0, isMonitoring = True\<rparr>]\<rparr>
   = \<lparr>st_kind = HueStrip, st_height = 100, st_sliderTop = Num 50, st_grabbing = True,
      st_overlay = None,
      st_drags = [\<lparr>origin_left = 0, origin_top = 0, isMonitoring = True\<rparr>]\<rparr>"
  by (simp add: Strip_onPointerDown_def Strip_new_def Strip_layout_def Strip_getValue_def
        updateSliderPosition_def startMonitoring_def Strip_onDidChangeColor_def Let_def)

text \<open>
  C6, amended. The saturation box ignores the model's color-change callback while the
  monitor in its \<open>monitor\<close> field is monitoring: nothing is repainted and the selection
  stays; otherwise it repaints and repositions the selection. A strip keeps no such check:
  on every color-change callback, whether or not a drag on it is in progress, it sets its
  slider to the model's value, and the opacity strip recomputes its overlay; the drags in
  progress are not disturbed.
\<close>

theorem only_saturation_box_ignores_color_change_while_monitoring:
  "(sb_monitor b = Some m \<and> isMonitoring m \<longrightarrow> SaturationBox_onDidChangeColor c b = b) \<and>
   (\<not> (case sb_monitor b of None \<Rightarrow> False | Some m \<Rightarrow> isMonitoring m) \<longrightarrow>
      SaturationBox_onDidChangeColor c b =
        paintSelection (saturation c) (brightness c) (paint c b)) \<and>
   st_sliderTop (Strip_onDidChangeColor c st) =
     js_mul (js_sub (Num 1) (Strip_getValue (st_kind st) c)) (Num (st_height st)) \<and>
   st_overlay (Strip_onDidChangeColor c st) =
     (case st_kind st of OpacityStrip \<Rightarrow> Some c | HueStrip \<Rightarrow> st_overlay st) \<and>
   st_drags (Strip_onDidChangeColor c st) = st_drags st"
  by (auto simp: SaturationBox_onDidChangeColor_def Strip_onDidChangeColor_def Let_def
        updateSliderPosition_def split: strip_kind.splits)

theorem only_saturation_box_ignores_color_change_while_monitoring_witness:
  "sb_monitor
     \<lparr>sb_width = 200, sb_height = 100,
      sb_monitor = Some \<lparr>origin_left = 0, origin_top = 0, isMonitoring = True\<rparr>,
      sb_replaced = [], sb_pointerUpListeners = 1, sb_selection = (Num 200, Num 0),
      sb_canvas = Num 0, sb_paints = 1\<rparr>
     = Some \<lparr>origin_left = 0, origin_top = 0, isMonitoring = True\<rparr> \<and>
   isMonitoring \<lparr>origin_left = 0, origin_top = 0, isMonitoring = True\<rparr> \<and>
   SaturationBox_onDidChangeColor
     \<lparr>hue = Num 180, saturation = Num 1, brightness = Num 1, alpha = Num 1\<rparr>
     \<lparr>sb_width = 200, sb_height = 100,
      sb_monitor = Some \<lparr>origin_left = 0, origin_top = 0, isMonitoring = True\<rparr>,
      sb_replaced = [], sb_pointerUpListeners = 1, sb_selection = (Num 200, Num 0),
      sb_canvas = Num 0, sb_paints = 1\<rparr>
   = \<lparr>sb_width = 200, sb_height = 100,
      sb_monitor = Some \<lparr>origin_left = 0, origin_top = 0, isMonitoring = True\<rparr>,
      sb_replaced = [], sb_pointerUpListeners = 1, sb_selection = (Num 200, Num 0),
      sb_canvas = Num 0, sb_paints = 1\<rparr> \<and>
   \<not> (case sb_monitor
            \<lparr>sb_width = 200, sb_height = 100, sb_monitor = None, sb_replaced = [],
             sb_pointerUpListeners = 0, sb_selection = (Num 200, Num 0), sb_canvas = Num 0,
             sb_paints = 1\<rparr>
        of None \<Rightarrow> False | Some m \<Rightarrow> isMonitoring m) \<and>
   SaturationBox_onDidChangeColor
     \<lparr>hue = Num 180, saturation = Num (1 / 2), brightness = Num 1, alpha = Num 1\<rparr>
     \<lparr>sb_width = 200, sb_height = 100, sb_monitor = None, sb_replaced = [],
      sb_pointerUpListeners = 0, sb_selection = (Num 200, Num 0), sb_canvas = Num 0,
      sb_paints = 1\<rparr>
   = \<lparr>sb_width = 200, sb_height = 100, sb_monitor = None, sb_replaced = [],
      sb_pointerUpListeners = 0, sb_selection = (Num 100, Num 0), sb_canvas = Num 180,
      sb_paints = 2\<rparr>"
  using only_saturation_box_ignores_color_change_while_monitoring
    [of "\<lparr>sb_width = 200, sb_height = 100,
          sb_monitor = Some \<lparr>origin_left = 0, origin_top = 0, isMonitoring = True\<rparr>,
          sb_replaced = [], sb_pointerUpListeners = 1, sb_selection = (Num 200, Num 0),
          sb_canvas = Num 0, sb_paints = 1\<rparr>"
        "\<lparr>origin_left = 0, origin_top = 0, isMonitoring = True\<rparr>"
        "\<lparr>hue = Num 180, saturation = Num 1, brightness = Num 1, alpha = Num 1\<rparr>"]
    only_saturation_box_ignores_color_change_while_monitoring
    [of "\<lparr>sb_width = 200, sb_height = 100, sb_monitor = None, sb_replaced = [],
          sb_pointerUpListeners = 0, sb_selection = (Num 200, Num 0), sb_canvas = Num 0,
          sb_paints = 1\<rparr>"
        _
        "\<lparr>hue = Num 180, saturation = Num (1 / 2), brightness = Num 1, alpha = Num 1\<rparr>"]
  by (simp add: paint_def paintSelection_def)

subsection \<open>The range of the emitted values\<close>

lemma js_div_NaN_iff: "js_div (Num a) (Num b) = NaN \<longleftrightarrow> a = 0 \<and> b = 0"
  by (simp add: signed_infinity_def)

lemma clamp_in_unit_interval_iff:
  "in_unit_interval (Math_max (Num 0) (Math_min (Num 1) x)) \<longleftrightarrow> x \<noteq> NaN"
  by (cases x) auto

lemma js_sub_one_NaN_iff: "js_sub (Num 1) x = NaN \<longleftrightarrow> x = NaN"
  by (cases x) auto

lemma SaturationBox_value_in_unit_interval:
  "in_unit_interval (fst (SaturationBox_value b l t)) \<longleftrightarrow> \<not> (l = 0 \<and> sb_width b = 0)"
  "in_unit_interval (snd (SaturationBox_value b l t)) \<longleftrightarrow> \<not> (t = 0 \<and> sb_height b = 0)"
  by (simp_all add: SaturationBox_value_def clamp_in_unit_interval_iff js_sub_one_NaN_iff
        js_div_NaN_iff del: js_div.simps)

lemma Strip_value_in_unit_interval:
  "in_unit_interval (Strip_value b t) \<longleftrightarrow> \<not> (t = 0 \<and> st_height b = 0)"
  by (simp add: Strip_value_def clamp_in_unit_interval_iff js_sub_one_NaN_iff js_div_NaN_iff
        del: js_div.simps)

text \<open>
  C7. The emitted values are clamped into \<open>[0,1]\<close> for every position as long as the
  position and the measured size are not both zero (the lemmas above). The claim
  itself, for any measured size, fails: a surface that was laid out at size zero, as it is
  when constructed inside a detached fragment, divides zero by zero at the position
  \<open>0\<close>, the clamp passes NaN through, and NaN is what \<open>onDidChange\<close> carries.
\<close>

theorem zero_size_surface_emits_NaN:
  "snd (SaturationBox_dispatch (PointerDown \<lparr>target = OtherElement, offsetX = 0, offsetY = 0\<rparr> (0, 0))
         (SaturationBox_new 0 0 \<lparr>hue = Num 0, saturation = Num 1, brightness = Num 1, alpha = Num 1\<rparr>))
     = [DidChange (NaN, NaN)] \<and>
   snd (Strip_dispatch (PointerDown \<lparr>target = OtherElement, offsetX = 0, offsetY = 0\<rparr> (0, 0))
         (Strip_new HueStrip 0 0 \<lparr>hue = Num 0, saturation = Num 1, brightness = Num 1, alpha = Num 1\<rparr>))
     = [DidChange NaN] \<and>
   \<not> in_unit_interval NaN"
  by (simp add: SaturationBox_new_def SaturationBox_layout_def SaturationBox_onPointerDown_def
        SaturationBox_onDidChangePosition_def paint_def paintSelection_def Let_def
        signed_infinity_def Strip_new_def Strip_layout_def Strip_onPointerDown_def
        Strip_onDidChangeTop_def updateSliderPosition_def Strip_getValue_def)

subsection \<open>The hue of the model and the hue strip\<close>











section \<open>Properties of the color picker's editor synchronisation\<close>

subsection \<open>The hover variant\<close>

lemma hover_updateEditorModel:
  assumes "presentation (colorModel s) = Some p" "editorUpdatedByColorPicker s"
  shows "updateEditorModel env HoverColorPicker_onDidChangeModelContent rng s =
     Inr (case trackedAfterEdits env (all_edits rng p) (edit_range (primary_edit rng p)) of
            Some r \<Rightarrow> r | None \<Rightarrow> edit_range (primary_edit rng p),
          s\<lparr>calls := calls s @
               [SetTrackedRange (edit_range (primary_edit rng p)),
                ExecuteEdits ''colorpicker'' (all_edits rng p),
                PushUndoStop,
                GetTrackedRange (length (trackedRanges s))],
            trackedRanges :=
              map (\<lambda>t. case t of None \<Rightarrow> None
                        | Some r \<Rightarrow> trackedAfterEdits env (all_edits rng p) r)
                (trackedRanges s @ [Some (edit_range (primary_edit rng p))]),
            editorUpdatedByColorPicker := False\<rparr>)"
  using assms
  by (simp add: updateEditorModel_def Let_def setTrackedRange_def executeEdits_def
        pushUndoStop_def getTrackedRange_def HoverColorPicker_onDidChangeModelContent_def
        primary_edit_def all_edits_def nth_append cong: option.case_cong)

lemma presentation_after_set:
  "ps \<noteq> [] \<Longrightarrow> \<exists>p. presentation (set_colorPresentations ps m) = Some p"
  by (simp add: presentation_def set_colorPresentations_def)

lemma hide_count_append [simp]:
  "hide_count (s\<lparr>calls := calls s @ cs\<rparr>) = hide_count s + length (filter (\<lambda>c. c = ContextHide) cs)"
  by (simp add: hide_count_def)

lemma hover_resume:
  assumes "presentation (set_colorPresentations ps (colorModel s)) = Some p"
  shows "HoverColorPicker_onColorFlushed_resume env (Some ps) s =
     (None,
      s\<lparr>calls := calls s @
               [SetTrackedRange (edit_range (primary_edit (hp_range s) p)),
                ExecuteEdits ''colorpicker'' (all_edits (hp_range s) p),
                PushUndoStop,
                GetTrackedRange (length (trackedRanges s))],
        trackedRanges :=
              map (\<lambda>t. case t of None \<Rightarrow> None
                        | Some r \<Rightarrow> trackedAfterEdits env (all_edits (hp_range s) p) r)
                (trackedRanges s @ [Some (edit_range (primary_edit (hp_range s) p))]),
        colorModel := set_colorPresentations ps (colorModel s),
        hp_range := (case trackedAfterEdits env (all_edits (hp_range s) p)
                             (edit_range (primary_edit (hp_range s) p)) of
                       Some r \<Rightarrow> r | None \<Rightarrow> edit_range (primary_edit (hp_range s) p)),
        editorUpdatedByColorPicker := False\<rparr>)"
proof -
  let ?s2 = "(receiveColorPresentations (Some ps) s)\<lparr>editorUpdatedByColorPicker := True\<rparr>"
  have p: "presentation (colorModel ?s2) = Some p" "editorUpdatedByColorPicker ?s2"
    using assms by (simp_all add: receiveColorPresentations_def)
  show ?thesis
    unfolding HoverColorPicker_onColorFlushed_resume_def Let_def
      hover_updateEditorModel[OF p, of env "hp_range ?s2"]
    by (simp add: receiveColorPresentations_def cong: option.case_cong)
qed

lemma hover_step:
  assumes "\<not> editorUpdatedByColorPicker s" "answers_flush_with_presentation e"
  shows "\<not> editorUpdatedByColorPicker (HoverColorPicker_step env e s) \<and>
         hide_count (HoverColorPicker_step env e s) =
           hide_count s + (if e = ExternalContentChange then 1 else 0)"
proof (cases e)
  case (FlushAnswered answer)
  then obtain ps where a: "answer = Some ps" "ps \<noteq> []"
    using assms(2) by (auto split: option.splits)
  then obtain p where "presentation (set_colorPresentations ps (colorModel s)) = Some p"
    using presentation_after_set by blast
  from hover_resume[OF this] show ?thesis
    using FlushAnswered a by (simp add: hide_count_def)
qed (use assms in \<open>simp_all add: HoverColorPicker_onColorFlushed_request_def
      HoverColorPicker_onDidChangeColor_request_def requestColorPresentations_def
      receiveColorPresentations_def HoverColorPicker_onDidChangeModelContent_def hide_def
      hide_count_def\<close>)

lemma hover_run:
  "\<not> editorUpdatedByColorPicker s \<Longrightarrow> list_all answers_flush_with_presentation evs \<Longrightarrow>
   \<not> editorUpdatedByColorPicker (HoverColorPicker_run env evs s) \<and>
   hide_count (HoverColorPicker_run env evs s) =
     hide_count s + length (filter (\<lambda>e. e = ExternalContentChange) evs)"
proof (induction evs arbitrary: s)
  case Nil
  then show ?case by simp
next
  case (Cons e evs)
  from Cons.prems have "answers_flush_with_presentation e" "list_all answers_flush_with_presentation evs"
    by simp_all
  with hover_step[OF Cons.prems(1), of e env] Cons.IH[of "HoverColorPicker_step env e s"]
  show ?case by auto
qed


text \<open>
  When the provider answers a flush with no presentation, \<open>_updateEditorModel\<close> throws
  after the flag was set and before any edit is made, so the flag stays set.
\<close>

lemma flush_without_presentation_leaves_flag_set:
  "HoverColorPicker_onColorFlushed_resume env (Some []) s =
     (Some (TypeError ''Cannot read properties of undefined''),
      s\<lparr>colorModel := set_colorPresentations [] (colorModel s),
        editorUpdatedByColorPicker := True\<rparr>)"
  by (simp add: HoverColorPicker_onColorFlushed_resume_def Let_def receiveColorPresentations_def
        updateEditorModel_def presentation_def set_colorPresentations_def)

text \<open>
  As long as every flush is answered with at least one presentation, the flag does what it
  is there for. From a picker whose flag is clear, over any sequence of events, the picker
  asks the hover to hide exactly once for every buffer change that is not its own and never
  for the buffer change its own edit triggers; the flag is clear again after every event.
\<close>

lemma own_edit_consumed_when_flushes_have_presentations:
  assumes "\<not> editorUpdatedByColorPicker s"
      and "list_all answers_flush_with_presentation evs"
  shows "hide_count (HoverColorPicker_run env evs s) =
           hide_count s + length (filter (\<lambda>e. e = ExternalContentChange) evs) \<and>
         \<not> editorUpdatedByColorPicker (HoverColorPicker_run env evs s) \<and>
         HoverColorPicker_onDidChangeModelContent (s\<lparr>editorUpdatedByColorPicker := True\<rparr>) = s"
  using hover_run[OF assms, of env] assms(1)
  by (simp add: HoverColorPicker_onDidChangeModelContent_def)

text \<open>
  C1. The claim holds for flushes that find a presentation (the lemma above) and fails
  otherwise. When the provider answers a flush with no presentation, the listener sets the
  flag and then throws inside \<open>_updateEditorModel\<close>, before any edit: there is no own
  buffer change to clear the flag, and the next buffer change, which is somebody else's, is
  taken for the picker's own. The picker does not hide.
\<close>

theorem flush_without_presentation_swallows_external_change:
  "fst (HoverColorPicker_onColorFlushed_resume
          \<lparr>provideColorPresentations = provider_answering [], trackedAfterEdits = ranges_stay\<rparr>
          (Some [])
          (HoverColorPicker_onColorFlushed_request
             \<lparr>hue = Num 0, saturation = Num 0, brightness = Num 0, alpha = Num 1\<rparr>
             (HoverColorPicker_new
                \<lparr>startLineNumber = 3, startColumn = 5, endLineNumber = 3, endColumn = 12\<rparr>
                \<lparr>color = \<lparr>hue = Num 0, saturation = Num 1, brightness = Num 1, alpha = Num 1\<rparr>,
                 colorPresentations = [], presentationIndex = 0\<rparr>)))
     = Some (TypeError ''Cannot read properties of undefined'') \<and>
   editorUpdatedByColorPicker
     (HoverColorPicker_run
        \<lparr>provideColorPresentations = provider_answering [], trackedAfterEdits = ranges_stay\<rparr>
        [FlushFired \<lparr>hue = Num 0, saturation = Num 0, brightness = Num 0, alpha = Num 1\<rparr>,
         FlushAnswered (Some [])]
        (HoverColorPicker_new
           \<lparr>startLineNumber = 3, startColumn = 5, endLineNumber = 3, endColumn = 12\<rparr>
           \<lparr>color = \<lparr>hue = Num 0, saturation = Num 1, brightness = Num 1, alpha = Num 1\<rparr>,
            colorPresentations = [], presentationIndex = 0\<rparr>)) \<and>
   calls
     (HoverColorPicker_run
        \<lparr>provideColorPresentations = provider_answering [], trackedAfterEdits = ranges_stay\<rparr>
        [FlushFired \<lparr>hue = Num 0, saturation = Num 0, brightness = Num 0, alpha = Num 1\<rparr>,
         FlushAnswered (Some []),
         ExternalContentChange]
        (HoverColorPicker_new
           \<lparr>startLineNumber = 3, startColumn = 5, endLineNumber = 3, endColumn = 12\<rparr>
           \<lparr>color = \<lparr>hue = Num 0, saturation = Num 1, brightness = Num 1, alpha = Num 1\<rparr>,
            colorPresentations = [], presentationIndex = 0\<rparr>))
     = [GetColorPresentations \<lparr>hue = Num 0, saturation = Num 0, brightness = Num 0, alpha = Num 1\<rparr>
          \<lparr>startLineNumber = 3, startColumn = 5, endLineNumber = 3, endColumn = 12\<rparr>] \<and>
   hide_count
     (HoverColorPicker_run
        \<lparr>provideColorPresentations = provider_answering [], trackedAfterEdits = ranges_stay\<rparr>
        [FlushFired \<lparr>hue = Num 0, saturation = Num 0, brightness = Num 0, alpha = Num 1\<rparr>,
         FlushAnswered (Some []),
         ExternalContentChange]
        (HoverColorPicker_new
           \<lparr>startLineNumber = 3, startColumn = 5, endLineNumber = 3, endColumn = 12\<rparr>
           \<lparr>color = \<lparr>hue = Num 0, saturation = Num 1, brightness = Num 1, alpha = Num 1\<rparr>,
            colorPresentations = [], presentationIndex = 0\<rparr>)) = 0"
  by (simp add: HoverColorPicker_onColorFlushed_resume_def HoverColorPicker_onColorFlushed_request_def
        HoverColorPicker_new_def requestColorPresentations_def receiveColorPresentations_def
        set_colorPresentations_def presentation_def updateEditorModel_def Let_def
        HoverColorPicker_onDidChangeModelContent_def hide_count_def)

text \<open>
  On a flushed event of the model, when the provider answers with presentations of which
  the model's current one is \<open>p\<close>, the hover picker makes these calls and no others, in
  this order: the provider is asked for the flushed color and the picker's current range; a
  tracked range is set over the replace range (the range of the primary edit); one
  \<open>executeEdits\<close> applies the primary edit followed by the additional edits of \<open>p\<close>; one
  undo stop is pushed; the tracked range is read back. The picker's range becomes the
  bounds read back, or the replace range when the tracked range is lost.
\<close>

lemma flushed_sync_sequence_with_presentation:
  assumes "provideColorPresentations env c (hp_range s) = Some ps"
      and "presentation (set_colorPresentations ps (colorModel s)) = Some p"
  shows "fst (HoverColorPicker_onColorFlushed env c s) = None \<and>
     calls (snd (HoverColorPicker_onColorFlushed env c s)) =
       calls s @
         [GetColorPresentations c (hp_range s),
          SetTrackedRange (edit_range (primary_edit (hp_range s) p)),
          ExecuteEdits ''colorpicker'' (all_edits (hp_range s) p),
          PushUndoStop,
          GetTrackedRange (length (trackedRanges s))] \<and>
     hp_range (snd (HoverColorPicker_onColorFlushed env c s)) =
       (case trackedAfterEdits env (all_edits (hp_range s) p)
               (edit_range (primary_edit (hp_range s) p)) of
          Some r \<Rightarrow> r
        | None \<Rightarrow> edit_range (primary_edit (hp_range s) p))"
proof -
  let ?s1 = "HoverColorPicker_onColorFlushed_request c s"
  have "presentation (set_colorPresentations ps (colorModel ?s1)) = Some p"
    using assms(2) by (simp add: HoverColorPicker_onColorFlushed_request_def requestColorPresentations_def)
  from hover_resume[OF this, of env] show ?thesis
    using assms(1)
    by (simp add: HoverColorPicker_onColorFlushed_def HoverColorPicker_onColorFlushed_request_def
          requestColorPresentations_def cong: option.case_cong)
qed

text \<open>
  C2. The claim holds for flushed events that find a presentation (the lemma above), not
  for every flushed event. When the provider answers with no presentation, the re-fetch is
  the only call made: \<open>_updateEditorModel\<close> throws on the missing presentation, no edit is
  applied, no undo stop is pushed, no tracked range is set or read, and the picker's range
  stays as it was.
\<close>

theorem flush_without_presentation_makes_no_edit:
  "HoverColorPicker_onColorFlushed
     \<lparr>provideColorPresentations = provider_answering [], trackedAfterEdits = ranges_stay\<rparr>
     \<lparr>hue = Num 0, saturation = Num 0, brightness = Num 0, alpha = Num 1\<rparr>
     (HoverColorPicker_new
        \<lparr>startLineNumber = 3, startColumn = 5, endLineNumber = 3, endColumn = 12\<rparr>
        \<lparr>color = \<lparr>hue = Num 0, saturation = Num 1, brightness = Num 1, alpha = Num 1\<rparr>,
         colorPresentations = [], presentationIndex = 0\<rparr>)
   = (Some (TypeError ''Cannot read properties of undefined''),
      \<lparr>calls = [GetColorPresentations
                   \<lparr>hue = Num 0, saturation = Num 0, brightness = Num 0, alpha = Num 1\<rparr>
                   \<lparr>startLineNumber = 3, startColumn = 5, endLineNumber = 3, endColumn = 12\<rparr>],
       trackedRanges = [], hasModel = True,
       colorModel =
         \<lparr>color = \<lparr>hue = Num 0, saturation = Num 1, brightness = Num 1, alpha = Num 1\<rparr>,
          colorPresentations = [], presentationIndex = 0\<rparr>,
       hp_range = \<lparr>startLineNumber = 3, startColumn = 5, endLineNumber = 3, endColumn = 12\<rparr>,
       editorUpdatedByColorPicker = True\<rparr>)"
  by (simp add: HoverColorPicker_onColorFlushed_def HoverColorPicker_onColorFlushed_resume_def
        HoverColorPicker_onColorFlushed_request_def provider_answering_def
        HoverColorPicker_new_def requestColorPresentations_def receiveColorPresentations_def
        set_colorPresentations_def presentation_def updateEditorModel_def Let_def)


subsection \<open>The standalone variant\<close>

lemma standalone_updateEditorModel:
  assumes "presentation (colorModel s) = Some p"
  shows "updateEditorModel env StandaloneColorPicker_onDidChangeModelContent rng s =
     Inr (case trackedAfterEdits env (all_edits rng p) (edit_range (primary_edit rng p)) of
            Some r \<Rightarrow> r | None \<Rightarrow> edit_range (primary_edit rng p),
          s\<lparr>calls := calls s @
               [SetTrackedRange (edit_range (primary_edit rng p)),
                ExecuteEdits ''colorpicker'' (all_edits rng p),
                ContextHide, EditorFocus,
                PushUndoStop,
                GetTrackedRange (length (trackedRanges s))],
            trackedRanges :=
              map (\<lambda>t. case t of None \<Rightarrow> None
                        | Some r \<Rightarrow> trackedAfterEdits env (all_edits rng p) r)
                (trackedRanges s @ [Some (edit_range (primary_edit rng p))])\<rparr>)"
  using assms
  by (simp add: updateEditorModel_def Let_def setTrackedRange_def executeEdits_def
        pushUndoStop_def getTrackedRange_def StandaloneColorPicker_onDidChangeModelContent_def
        hide_def primary_edit_def all_edits_def nth_append cong: option.case_cong)

lemma standalone_step_frame:
  "sp_color (StandaloneColorPicker_step env e s) =
     (case e of StandaloneFlush c \<Rightarrow> Some c | other \<Rightarrow> sp_color s) \<and>
   sp_range (StandaloneColorPicker_step env e s) = sp_range s \<and>
   hasModel (StandaloneColorPicker_step env e s) = hasModel s \<and>
   filter is_edit (calls (StandaloneColorPicker_step env e s)) = filter is_edit (calls s)"
  by (cases e)
     (simp_all add: StandaloneColorPicker_onColorFlushed_def StandaloneColorPicker_onDidChangeColor_def
        StandaloneColorPicker_onDidChangeModelContent_def updateColorPresentations_def
        receiveColorPresentations_def requestColorPresentations_def hide_def)

lemma standalone_run_frame:
  "sp_color s = Some c0 \<Longrightarrow>
   sp_color (StandaloneColorPicker_run env evs s) = Some (last_flushed evs c0) \<and>
   filter is_edit (calls (StandaloneColorPicker_run env evs s)) = filter is_edit (calls s)"
proof (induction evs arbitrary: s c0)
  case Nil
  then show ?case by simp
next
  case (Cons e evs)
  show ?case
  proof (cases e)
    case (StandaloneFlush c)
    have "sp_color (StandaloneColorPicker_step env e s) = Some c"
      using StandaloneFlush standalone_step_frame[of env e s] by simp
    from Cons.IH[OF this] standalone_step_frame[of env e s] StandaloneFlush
    show ?thesis by simp
  next
    case (StandaloneColorChange c)
    have "sp_color (StandaloneColorPicker_step env e s) = Some c0"
      using StandaloneColorChange standalone_step_frame[of env e s] Cons.prems by simp
    from Cons.IH[OF this] standalone_step_frame[of env e s] StandaloneColorChange
    show ?thesis by simp
  next
    case StandaloneContentChange
    have "sp_color (StandaloneColorPicker_step env e s) = Some c0"
      using StandaloneContentChange standalone_step_frame[of env e s] Cons.prems by simp
    from Cons.IH[OF this] standalone_step_frame[of env e s] StandaloneContentChange
    show ?thesis by simp
  qed
qed

lemma standalone_new_frame:
  "sp_color (StandaloneColorPicker_new env r m) = Some (color m) \<and>
   calls (StandaloneColorPicker_new env r m) = [GetColorPresentations (color m) r]"
  by (simp add: StandaloneColorPicker_new_def updateColorPresentations_def
        receiveColorPresentations_def requestColorPresentations_def)

lemma standalone_run_new:
  "sp_color (StandaloneColorPicker_run env evs (StandaloneColorPicker_new env r m)) =
     Some (last_flushed evs (color m)) \<and>
   filter is_edit (calls (StandaloneColorPicker_run env evs (StandaloneColorPicker_new env r m))) = []"
  using standalone_run_frame[of "StandaloneColorPicker_new env r m" "color m" env evs]
    standalone_new_frame[of env r m]
  by simp

text \<open>
  C8, as the claim states it, fails in its last part. A standalone picker fresh from its
  constructor, with no flushed event so far, applies the text edit when
  \<open>updateEditorModel\<close> is invoked: \<open>_registerListeners\<close> has stored the model's color in
  the \<open>_color\<close> field that \<open>updateEditorModel\<close> tests.
\<close>

theorem standalone_edit_without_flush:
  "calls (snd (StandaloneColorPicker_updateEditorModel
     \<lparr>provideColorPresentations =
        provider_answering [\<lparr>label = ''#ff0000'', textEdit = None, additionalTextEdits = None\<rparr>],
      trackedAfterEdits = ranges_stay\<rparr>
     \<lparr>startLineNumber = 3, startColumn = 5, endLineNumber = 3, endColumn = 12\<rparr>
     (StandaloneColorPicker_new
        \<lparr>provideColorPresentations =
           provider_answering [\<lparr>label = ''#ff0000'', textEdit = None, additionalTextEdits = None\<rparr>],
         trackedAfterEdits = ranges_stay\<rparr>
        \<lparr>startLineNumber = 3, startColumn = 5, endLineNumber = 3, endColumn = 12\<rparr>
        \<lparr>color = \<lparr>hue = Num 0, saturation = Num 1, brightness = Num 1, alpha = Num 1\<rparr>,
         colorPresentations = [], presentationIndex = 0\<rparr>)))
   = [GetColorPresentations \<lparr>hue = Num 0, saturation = Num 1, brightness = Num 1, alpha = Num 1\<rparr>
        \<lparr>startLineNumber = 3, startColumn = 5, endLineNumber = 3, endColumn = 12\<rparr>,
      GetColorPresentations \<lparr>hue = Num 0, saturation = Num 1, brightness = Num 1, alpha = Num 1\<rparr>
        \<lparr>startLineNumber = 3, startColumn = 5, endLineNumber = 3, endColumn = 12\<rparr>,
      SetTrackedRange \<lparr>startLineNumber = 3, startColumn = 5, endLineNumber = 3, endColumn = 12\<rparr>,
      ExecuteEdits ''colorpicker''
        [\<lparr>edit_range = \<lparr>startLineNumber = 3, startColumn = 5, endLineNumber = 3, endColumn = 12\<rparr>,
          edit_text = ''#ff0000'', forceMoveMarkers = Some False\<rparr>],
      ContextHide, EditorFocus,
      PushUndoStop,
      GetTrackedRange 0]"
  by (simp add: StandaloneColorPicker_updateEditorModel_def StandaloneColorPicker_new_def
        updateColorPresentations_def receiveColorPresentations_def requestColorPresentations_def
        provider_answering_def ranges_stay_def set_colorPresentations_def presentation_def
        updateEditorModel_def Let_def setTrackedRange_def executeEdits_def pushUndoStop_def
        getTrackedRange_def StandaloneColorPicker_onDidChangeModelContent_def hide_def)

text \<open>
  C8, amended. In the standalone variant a color change of the model asks the provider for
  presentations, makes no other call and leaves the recorded color alone, as a buffer
  change does; a flushed event makes no call at all and only records the flushed color;
  the constructor records the model's color and asks the provider once. So after any
  sequence of flushes, color changes and buffer changes no text edit has been applied, and
  the recorded color is the last flushed one, or the model's color at construction when
  none was flushed. The text edit (a re-fetch for the recorded color, then the editor-model
  update, whose own buffer change hides the picker) is made only by \<open>updateEditorModel\<close>,
  for the recorded color, which it leaves as it is. Without a model in the editor
  \<open>updateEditorModel\<close> does nothing.
\<close>

theorem standalone_edit_only_on_updateEditorModel:
  "calls (StandaloneColorPicker_onDidChangeColor env c s) =
     calls s @ [GetColorPresentations c (sp_range s)] \<and>
   calls (StandaloneColorPicker_onColorFlushed c s) = calls s \<and>
   sp_color (StandaloneColorPicker_onColorFlushed c s) = Some c \<and>
   sp_color (StandaloneColorPicker_new env r m) = Some (color m) \<and>
   calls (StandaloneColorPicker_new env r m) = [GetColorPresentations (color m) r] \<and>
   sp_color (StandaloneColorPicker_onDidChangeColor env c s) = sp_color s \<and>
   sp_color (StandaloneColorPicker_onDidChangeModelContent s) = sp_color s \<and>
   sp_color (StandaloneColorPicker_run env evs (StandaloneColorPicker_new env r m)) =
     Some (last_flushed evs (color m)) \<and>
   filter is_edit (calls (StandaloneColorPicker_run env evs (StandaloneColorPicker_new env r m)))
     = [] \<and>
   (hasModel s \<and> sp_color s = Some c \<and> provideColorPresentations env c r = Some ps \<and>
    presentation (set_colorPresentations ps (colorModel s)) = Some p \<longrightarrow>
      fst (StandaloneColorPicker_updateEditorModel env r s) = None \<and>
      sp_color (snd (StandaloneColorPicker_updateEditorModel env r s)) = Some c \<and>
      calls (snd (StandaloneColorPicker_updateEditorModel env r s)) =
        calls s @
          [GetColorPresentations c r,
           SetTrackedRange (edit_range (primary_edit r p)),
           ExecuteEdits ''colorpicker'' (all_edits r p),
           ContextHide, EditorFocus,
           PushUndoStop,
           GetTrackedRange (length (trackedRanges s))]) \<and>
   (\<not> hasModel s \<longrightarrow> StandaloneColorPicker_updateEditorModel env r s = (None, s))"
proof -
  have upd: "fst (StandaloneColorPicker_updateEditorModel env r s) = None \<and>
      sp_color (snd (StandaloneColorPicker_updateEditorModel env r s)) = Some c \<and>
      calls (snd (StandaloneColorPicker_updateEditorModel env r s)) =
        calls s @
          [GetColorPresentations c r,
           SetTrackedRange (edit_range (primary_edit r p)),
           ExecuteEdits ''colorpicker'' (all_edits r p),
           ContextHide, EditorFocus,
           PushUndoStop,
           GetTrackedRange (length (trackedRanges s))]"
    if h: "hasModel s" "sp_color s = Some c" "provideColorPresentations env c r = Some ps"
      "presentation (set_colorPresentations ps (colorModel s)) = Some p"
  proof -
    let ?s1 = "updateColorPresentations env c r s"
    have p1: "presentation (colorModel ?s1) = Some p"
      using h by (simp add: updateColorPresentations_def receiveColorPresentations_def
            requestColorPresentations_def)
    have c1: "calls ?s1 = calls s @ [GetColorPresentations c r]"
       "trackedRanges ?s1 = trackedRanges s" "sp_color ?s1 = sp_color s"
      by (simp_all add: updateColorPresentations_def receiveColorPresentations_def
            requestColorPresentations_def)
    show ?thesis
      using h c1
      by (simp add: StandaloneColorPicker_updateEditorModel_def Let_def
            standalone_updateEditorModel[OF p1])
  qed
  show ?thesis
    using upd standalone_run_new[of env evs r m]
    by (simp add: StandaloneColorPicker_onDidChangeColor_def updateColorPresentations_def
          receiveColorPresentations_def requestColorPresentations_def
          StandaloneColorPicker_onColorFlushed_def StandaloneColorPicker_new_def
          StandaloneColorPicker_updateEditorModel_def
          StandaloneColorPicker_onDidChangeModelContent_def hide_def)
qed


theorem standalone_edit_only_on_updateEditorModel_witness:
  "hasModel
     (StandaloneColorPicker_onColorFlushed
        \<lparr>hue = Num 0, saturation = Num 0, brightness = Num 0, alpha = Num 1\<rparr>
        (StandaloneColorPicker_new
           \<lparr>provideColorPresentations =
              provider_answering [\<lparr>label = ''#000000'', textEdit = None, additionalTextEdits = None\<rparr>],
            trackedAfterEdits = ranges_stay\<rparr>
           \<lparr>startLineNumber = 3, startColumn = 5, endLineNumber = 3, endColumn = 12\<rparr>
           \<lparr>color = \<lparr>hue = Num 0, saturation = Num 1, brightness = Num 1, alpha = Num 1\<rparr>,
            colorPresentations = [], presentationIndex = 0\<rparr>)) \<and>
   calls (snd (StandaloneColorPicker_updateEditorModel
     \<lparr>provideColorPresentations =
        provider_answering [\<lparr>label = ''#000000'', textEdit = None, additionalTextEdits = None\<rparr>],
      trackedAfterEdits = ranges_stay\<rparr>
     \<lparr>startLineNumber = 3, startColumn = 5, endLineNumber = 3, endColumn = 12\<rparr>
     (StandaloneColorPicker_onColorFlushed
        \<lparr>hue = Num 0, saturation = Num 0, brightness = Num 0, alpha = Num 1\<rparr>
        (StandaloneColorPicker_new
           \<lparr>provideColorPresentations =
              provider_answering [\<lparr>label = ''#000000'', textEdit = None, additionalTextEdits = None\<rparr>],
            trackedAfterEdits = ranges_stay\<rparr>
           \<lparr>startLineNumber = 3, startColumn = 5, endLineNumber = 3, endColumn = 12\<rparr>
           \<lparr>color = \<lparr>hue = Num 0, saturation = Num 1, brightness = Num 1, alpha = Num 1\<rparr>,
            colorPresentations = [], presentationIndex = 0\<rparr>))))
   = [GetColorPresentations \<lparr>hue = Num 0, saturation = Num 1, brightness = Num 1, alpha = Num 1\<rparr>
        \<lparr>startLineNumber = 3, startColumn = 5, endLineNumber = 3, endColumn = 12\<rparr>,
      GetColorPresentations \<lparr>hue = Num 0, saturation = Num 0, brightness = Num 0, alpha = Num 1\<rparr>
        \<lparr>startLineNumber = 3, startColumn = 5, endLineNumber = 3, endColumn = 12\<rparr>,
      SetTrackedRange \<lparr>startLineNumber = 3, startColumn = 5, endLineNumber = 3, endColumn = 12\<rparr>,
      ExecuteEdits ''colorpicker''
        [\<lparr>edit_range = \<lparr>startLineNumber = 3, startColumn = 5, endLineNumber = 3, endColumn = 12\<rparr>,
          edit_text = ''#000000'', forceMoveMarkers = Some False\<rparr>],
      ContextHide, EditorFocus,
      PushUndoStop,
      GetTrackedRange 0] \<and>
   \<not> hasModel
       \<lparr>calls = [], trackedRanges = [], hasModel = False,
        colorModel =
          \<lparr>color = \<lparr>hue = Num 0, saturation = Num 1, brightness = Num 1, alpha = Num 1\<rparr>,
           colorPresentations = [], presentationIndex = 0\<rparr>,
        sp_color = Some \<lparr>hue = Num 0, saturation = Num 1, brightness = Num 1, alpha = Num 1\<rparr>,
        sp_range = \<lparr>startLineNumber = 3, startColumn = 5, endLineNumber = 3, endColumn = 12\<rparr>\<rparr> \<and>
   StandaloneColorPicker_updateEditorModel
     \<lparr>provideColorPresentations =
        provider_answering [\<lparr>label = ''#000000'', textEdit = None, additionalTextEdits = None\<rparr>],
      trackedAfterEdits = ranges_stay\<rparr>
     \<lparr>startLineNumber = 3, startColumn = 5, endLineNumber = 3, endColumn = 12\<rparr>
     \<lparr>calls = [], trackedRanges = [], hasModel = False,
      colorModel =
        \<lparr>color = \<lparr>hue = Num 0, saturation = Num 1, brightness = Num 1, alpha = Num 1\<rparr>,
         colorPresentations = [], presentationIndex = 0\<rparr>,
      sp_color = Some \<lparr>hue = Num 0, saturation = Num 1, brightness = Num 1, alpha = Num 1\<rparr>,
      sp_range = \<lparr>startLineNumber = 3, startColumn = 5, endLineNumber = 3, endColumn = 12\<rparr>\<rparr>
   = (None,
      \<lparr>calls = [], trackedRanges = [], hasModel = False,
       colorModel =
         \<lparr>color = \<lparr>hue = Num 0, saturation = Num 1, brightness = Num 1, alpha = Num 1\<rparr>,
          colorPresentations = [], presentationIndex = 0\<rparr>,
       sp_color = Some \<lparr>hue = Num 0, saturation = Num 1, brightness = Num 1, alpha = Num 1\<rparr>,
       sp_range = \<lparr>startLineNumber = 3, startColumn = 5, endLineNumber = 3, endColumn = 12\<rparr>\<rparr>)"
proof -
  let ?p = "\<lparr>label = ''#000000'', textEdit = None, additionalTextEdits = None\<rparr>"
  let ?env = "\<lparr>provideColorPresentations = provider_answering [?p],
               trackedAfterEdits = ranges_stay\<rparr>"
  let ?c = "\<lparr>hue = Num 0, saturation = Num 0, brightness = Num 0, alpha = Num 1\<rparr>"
  let ?r = "\<lparr>startLineNumber = 3, startColumn = 5, endLineNumber = 3, endColumn = 12\<rparr>"
  let ?n = "\<lparr>calls = [], trackedRanges = [], hasModel = False,
             colorModel =
               \<lparr>color = \<lparr>hue = Num 0, saturation = Num 1, brightness = Num 1, alpha = Num 1\<rparr>,
                colorPresentations = [], presentationIndex = 0\<rparr>,
             sp_color = Some \<lparr>hue = Num 0, saturation = Num 1, brightness = Num 1, alpha = Num 1\<rparr>,
             sp_range = ?r\<rparr>"
  let ?s = "StandaloneColorPicker_onColorFlushed ?c
        (StandaloneColorPicker_new ?env ?r
           \<lparr>color = \<lparr>hue = Num 0, saturation = Num 1, brightness = Num 1, alpha = Num 1\<rparr>,
            colorPresentations = [], presentationIndex = 0\<rparr>)"
  have h: "hasModel ?s" "sp_color ?s = Some ?c"
      "provideColorPresentations ?env ?c ?r = Some [?p]"
      "presentation (set_colorPresentations [?p] (colorModel ?s)) = Some ?p"
      "calls ?s = [GetColorPresentations
                     \<lparr>hue = Num 0, saturation = Num 1, brightness = Num 1, alpha = Num 1\<rparr> ?r]"
      "trackedRanges ?s = []"
    by (simp_all add: StandaloneColorPicker_onColorFlushed_def StandaloneColorPicker_new_def
          updateColorPresentations_def receiveColorPresentations_def requestColorPresentations_def
          provider_answering_def presentation_def set_colorPresentations_def)
  show ?thesis
    using standalone_edit_only_on_updateEditorModel
        [where env = ?env and c = ?c and s = ?s and r = ?r and ps = "[?p]" and p = ?p]
      standalone_edit_only_on_updateEditorModel
        [where env = ?env and c = ?c and s = ?n and r = ?r and ps = "[?p]" and p = ?p] h
    by (simp add: primary_edit_def all_edits_def)
qed

end
